theory Spec2Isabelle
  imports Complex_Main "HOL-Library.Word"
begin

unbundle bit_operations_syntax

section \<open>The schedalessa cpufreq governor (kernel/sched/cpufreq_schedalessa.c)\<close>

text \<open>
  A shallow embedding of the governor internals.  The target is a 64-bit kernel (LP64):
  \<open>unsigned int\<close> is a 32-bit word, \<open>unsigned long\<close>, \<open>u64\<close> and \<open>s64\<close> are 64-bit
  words; a signed comparison reads both sides with \<open>sint\<close>.  Functions that mutate the
  objects they are given return the updated objects.  The embedding is the one built
  with \<open>CONFIG_NO_HZ_COMMON\<close> (the other branch of the source does not compile).
\<close>

type_synonym u32 = "32 word"
type_synonym u64 = "64 word"

subsection \<open>Data\<close>

text \<open>The fields of \<open>struct cpufreq_policy\<close> (linux/cpufreq.h) that the governor reads.
  \<open>cpus\<close> is the cpumask of the policy, scanned by \<open>for_each_cpu\<close> in increasing order.
  Three fields are renamed: \<open>policy->min\<close> is \<open>min_freq\<close>, \<open>policy->cpuinfo.max_freq\<close> is
  \<open>cpuinfo_max_freq\<close>, and \<open>sg_cpu->max\<close> (below) is \<open>max_cap\<close>.\<close>

record cpufreq_policy =
  cur :: u32
  min_freq :: u32
  cpuinfo_max_freq :: u32
  fast_switch_enabled :: bool
  cpus :: "nat list"

record algov_tunables =
  up_rate_limit_us :: u32
  down_rate_limit_us :: u32
  iowait_boost_enable :: bool

text \<open>\<open>struct algov_policy\<close>.  \<open>irq_work_queued\<close> counts the calls of
  \<open>irq_work_queue(&sg_policy->irq_work)\<close>, the only effect of the governor that leaves
  the structure.\<close>

record algov_policy =
  policy :: cpufreq_policy
  tunables :: algov_tunables
  last_freq_update_time :: u64
  min_rate_limit_ns :: u64
  up_rate_delay_ns :: u64
  down_rate_delay_ns :: u64
  next_freq :: u32
  cached_raw_freq :: u32
  work_in_progress :: bool
  need_freq_update :: bool
  irq_work_queued :: nat

text \<open>\<open>struct algov_cpu\<close>, one per processor.\<close>

record algov_cpu =
  iowait_boost_pending :: bool
  iowait_boost :: u32
  iowait_boost_max :: u32
  last_update :: u64
  util :: u64
  max_cap :: u64
  flags :: u32
  cpu :: nat
  saved_idle_calls :: u64
  previous_util :: u64

text \<open>
  What the file takes from the rest of the kernel: macros and functions declared in
  headers that are not part of the file, and values read from the scheduler.  They are
  parameters of the embedding.
  \<^item> \<open>SCHED_CPUFREQ_DL\<close>, \<open>SCHED_CPUFREQ_IOWAIT\<close>, \<open>TICK_NSEC\<close>, \<open>SCHED_CAPACITY_SHIFT\<close>:
    macros;
  \<open>stale_ns\<close>: the file's static variable, written by \<open>algov_init\<close> only;
  \<^item> \<open>tick_nohz_get_idle_calls\<close>: the idle-entry counter of the processor that runs the
    code, \<open>tick_nohz_get_idle_calls_cpu\<close>: the one of a given processor;
  \<^item> \<open>map_util_freq\<close>, \<open>em_pd_get_higher_freq\<close> (at the policy's performance domain),
    \<open>cpufreq_driver_resolve_freq\<close>: functions of other files;
  \<^item> \<open>arch_scale_cpu_capacity\<close>, \<open>rq_age_stamp\<close>, \<open>rq_rt_avg\<close> (the run queue's fields
    after \<open>sched_avg_update\<close>), \<open>sched_avg_period\<close>, \<open>boosted_cpu_util\<close>: what
    \<open>algov_get_util\<close> reads.
\<close>

record env =
  SCHED_CPUFREQ_DL :: u32
  SCHED_CPUFREQ_IOWAIT :: u32
  TICK_NSEC :: u64
  SCHED_CAPACITY_SHIFT :: nat
  stale_ns :: u32
  arch_scale_freq_invariant :: bool
  use_pelt :: bool
  cpufreq_this_cpu_can_update :: bool
  tick_nohz_get_idle_calls :: u64
  tick_nohz_get_idle_calls_cpu :: "nat \<Rightarrow> u64"
  map_util_freq :: "u64 \<Rightarrow> u64 \<Rightarrow> u64 \<Rightarrow> u64"
  em_pd_get_higher_freq :: "u64 \<Rightarrow> u64 \<Rightarrow> u64"
  cpufreq_driver_resolve_freq :: "cpufreq_policy \<Rightarrow> u32 \<Rightarrow> u32"
  arch_scale_cpu_capacity :: "nat \<Rightarrow> u64"
  rq_age_stamp :: "nat \<Rightarrow> u64"
  rq_rt_avg :: "nat \<Rightarrow> u64"
  sched_avg_period :: u64
  boosted_cpu_util :: "nat \<Rightarrow> u64"

definition UINT_MAX :: u32 where
  "UINT_MAX = - 1"

subsection \<open>Rate limiting\<close>

definition algov_should_update_freq :: "env \<Rightarrow> algov_policy \<Rightarrow> u64 \<Rightarrow> bool" where
  "algov_should_update_freq e sg_policy time =
     (if fast_switch_enabled (policy sg_policy) \<and> \<not> cpufreq_this_cpu_can_update e then False
      else if need_freq_update sg_policy then True
      else sint (min_rate_limit_ns sg_policy) \<le> sint (time - last_freq_update_time sg_policy))"

definition algov_up_down_rate_limit :: "algov_policy \<Rightarrow> u64 \<Rightarrow> u32 \<Rightarrow> bool" where
  "algov_up_down_rate_limit sg_policy time nf =
     (let delta_ns = time - last_freq_update_time sg_policy in
      if next_freq sg_policy < nf \<and> sint delta_ns < sint (up_rate_delay_ns sg_policy) then True
      else if nf < next_freq sg_policy \<and> sint delta_ns < sint (down_rate_delay_ns sg_policy)
      then True
      else False)"

text \<open>Returns the function's result and the updated policy object.\<close>

definition algov_update_next_freq :: "algov_policy \<Rightarrow> u64 \<Rightarrow> u32 \<Rightarrow> bool \<times> algov_policy" where
  "algov_update_next_freq sg_policy time nf =
     (if algov_up_down_rate_limit sg_policy time nf
      then (False, sg_policy\<lparr>cached_raw_freq := 0\<rparr>)
      else if next_freq sg_policy = nf then (False, sg_policy)
      else let nf' = (if nf < next_freq sg_policy
                      then drop_bit 1 (next_freq sg_policy + nf) else nf)
           in (True, sg_policy\<lparr>next_freq := nf', last_freq_update_time := time\<rparr>))"

text \<open>The macro of the file: \<open>#define cpufreq_driver_fast_switch(x, y) 0\<close>.\<close>

definition cpufreq_driver_fast_switch :: "cpufreq_policy \<Rightarrow> u32 \<Rightarrow> u32" where
  "cpufreq_driver_fast_switch x y = 0"

definition algov_fast_switch :: "algov_policy \<Rightarrow> u64 \<Rightarrow> u32 \<Rightarrow> algov_policy" where
  "algov_fast_switch sg_policy time nf =
     (let (changed, sp) = algov_update_next_freq sg_policy time nf in
      if \<not> changed then sp
      else
        let nf' = cpufreq_driver_fast_switch (policy sp) nf in
        if nf' = 0 then sp
        else sp\<lparr>policy := (policy sp)\<lparr>cur := nf'\<rparr>\<rparr>)"

definition algov_deferred_update :: "algov_policy \<Rightarrow> u64 \<Rightarrow> u32 \<Rightarrow> algov_policy" where
  "algov_deferred_update sg_policy time nf =
     (let (changed, sp) = algov_update_next_freq sg_policy time nf in
      if \<not> changed then sp
      else if \<not> work_in_progress sp
      then sp\<lparr>work_in_progress := True, irq_work_queued := Suc (irq_work_queued sp)\<rparr>
      else sp)"

subsection \<open>Busy detection\<close>

definition algov_cpu_is_busy :: "env \<Rightarrow> algov_cpu \<Rightarrow> bool \<times> algov_cpu" where
  "algov_cpu_is_busy e sg_cpu =
     (let idle_calls = tick_nohz_get_idle_calls e;
          ret = (idle_calls = saved_idle_calls sg_cpu)
      in (ret, sg_cpu\<lparr>saved_idle_calls := idle_calls\<rparr>))"

definition algov_cpu_is_busy_update :: "env \<Rightarrow> algov_cpu \<Rightarrow> u64 \<Rightarrow> algov_cpu" where
  "algov_cpu_is_busy_update e sg_cpu u =
     (let idle_calls = tick_nohz_get_idle_calls_cpu e (cpu sg_cpu);
          c1 = sg_cpu\<lparr>saved_idle_calls := idle_calls\<rparr>;
          c2 = (if u \<le> previous_util c1
                then c1\<lparr>saved_idle_calls := saved_idle_calls c1 - 1\<rparr> else c1)
      in c2\<lparr>previous_util := u\<rparr>)"

subsection \<open>Frequency selection\<close>

text \<open>The raw frequency that \<open>get_next_freq\<close> computes before it looks at the cache
  (its lines up to \<open>freq = (freq + (freq >> 2)) * util / max\<close>); \<open>freq\<close> is an
  \<open>unsigned int\<close>, so every assignment truncates to 32 bits.  The caller checks
  \<open>max \<noteq> 0\<close>.\<close>

definition get_next_freq_raw :: "env \<Rightarrow> algov_policy \<Rightarrow> u64 \<Rightarrow> u64 \<Rightarrow> bool \<Rightarrow> u32" where
  "get_next_freq_raw e sg_policy u m busy =
     (let freq0 = (if arch_scale_freq_invariant e then cpuinfo_max_freq (policy sg_policy)
                   else cur (policy sg_policy));
          cost_margin = (if busy then 1024 div 2 else 0 :: u32);
          freq1 = (ucast (map_util_freq e u (ucast freq0) m) :: u32);
          freq2 = (ucast (em_pd_get_higher_freq e (ucast freq1) (ucast cost_margin)) :: u32)
      in ucast ((ucast (freq2 + drop_bit 2 freq2) :: u64) * u div m))"

text \<open>\<open>None\<close> is the division by zero of \<open>... * util / max\<close>.\<close>

definition get_next_freq ::
  "env \<Rightarrow> algov_policy \<Rightarrow> u64 \<Rightarrow> u64 \<Rightarrow> bool \<Rightarrow> (u32 \<times> algov_policy) option" where
  "get_next_freq e sg_policy u m busy =
     (if m = 0 then None
      else let freq = get_next_freq_raw e sg_policy u m busy in
        if freq = cached_raw_freq sg_policy \<and> \<not> need_freq_update sg_policy
        then Some (next_freq sg_policy, sg_policy)
        else Some (cpufreq_driver_resolve_freq e (policy sg_policy) freq,
                   sg_policy\<lparr>need_freq_update := False, cached_raw_freq := freq\<rparr>))"

text \<open>\<open>algov_get_util\<close> returns \<open>(*util, *max)\<close>; \<open>None\<close> is the division by zero of
  \<open>div64_u64\<close>.\<close>

definition algov_get_util :: "env \<Rightarrow> u64 \<Rightarrow> nat \<Rightarrow> (u64 \<times> u64) option" where
  "algov_get_util e time c =
     (let max_cap = arch_scale_cpu_capacity e c;
          delta0 = time - rq_age_stamp e c;
          delta = (if sint delta0 < 0 then 0 else delta0);
          d = sched_avg_period e + delta
      in if d = 0 then None
         else let rt0 = rq_rt_avg e c div d;
                  rt = drop_bit (SCHED_CAPACITY_SHIFT e) (rt0 * max_cap);
                  u0 = boosted_cpu_util e c;
                  u1 = (if use_pelt e then u0 + rt else u0)
              in Some (min u1 max_cap, max_cap))"

subsection \<open>The io-wait boost\<close>

definition algov_set_iowait_boost :: "env \<Rightarrow> algov_policy \<Rightarrow> algov_cpu \<Rightarrow> u64 \<Rightarrow> algov_cpu" where
  "algov_set_iowait_boost e sg_policy sg_cpu time =
     (if \<not> iowait_boost_enable (tunables sg_policy) then sg_cpu
      else
        let c1 = (if iowait_boost sg_cpu \<noteq> 0
                     \<and> sint (TICK_NSEC e) < sint (time - last_update sg_cpu)
                  then sg_cpu\<lparr>iowait_boost := 0, iowait_boost_pending := False\<rparr>
                  else sg_cpu)
        in if flags c1 AND SCHED_CPUFREQ_IOWAIT e \<noteq> 0 then
             (if iowait_boost_pending c1 then c1
              else
                let c2 = c1\<lparr>iowait_boost_pending := True\<rparr> in
                if iowait_boost c2 \<noteq> 0 then
                  (let c3 = c2\<lparr>iowait_boost := push_bit 1 (iowait_boost c2)\<rparr> in
                   if iowait_boost_max c3 < iowait_boost c3
                   then c3\<lparr>iowait_boost := iowait_boost_max c3\<rparr> else c3)
                else c2\<lparr>iowait_boost := min_freq (policy sg_policy)\<rparr>)
           else c1)"

text \<open>Returns the updated processor object and \<open>(*util, *max)\<close>.\<close>

definition algov_iowait_boost ::
  "algov_policy \<Rightarrow> algov_cpu \<Rightarrow> u64 \<Rightarrow> u64 \<Rightarrow> algov_cpu \<times> u64 \<times> u64" where
  "algov_iowait_boost sg_policy sg_cpu u m =
     (if iowait_boost sg_cpu = 0 then (sg_cpu, u, m)
      else
        let c1 = (if iowait_boost_pending sg_cpu
                  then sg_cpu\<lparr>iowait_boost_pending := False\<rparr>
                  else sg_cpu\<lparr>iowait_boost := drop_bit 1 (iowait_boost sg_cpu)\<rparr>)
        in if \<not> iowait_boost_pending sg_cpu \<and> iowait_boost c1 < min_freq (policy sg_policy)
           then (c1\<lparr>iowait_boost := 0\<rparr>, u, m)
           else
             let boost_util = iowait_boost c1;
                 boost_max = iowait_boost_max c1
             in if u * ucast boost_max < m * ucast boost_util
                then (c1, ucast boost_util, ucast boost_max)
                else (c1, u, m))"

subsection \<open>The update hooks\<close>

text \<open>The two branches that end \<open>algov_update_single\<close> and \<open>algov_update_shared\<close>:
  the frequency \<open>nf\<close> is handed to \<open>algov_fast_switch\<close> or to
  \<open>algov_deferred_update\<close>.\<close>

definition algov_apply :: "algov_policy \<Rightarrow> u64 \<Rightarrow> u32 \<Rightarrow> algov_policy" where
  "algov_apply sg_policy time nf =
     (if fast_switch_enabled (policy sg_policy) then algov_fast_switch sg_policy time nf
      else algov_deferred_update sg_policy time nf)"

text \<open>\<open>algov_update_single\<close>.  \<open>fl\<close> is the \<open>flags\<close> argument of the hook.  The local
  \<open>util\<close> is passed to \<open>algov_cpu_is_busy_update\<close> before \<open>algov_get_util\<close> has written
  it: \<open>util_uninit\<close> is the value it holds there.  The result is the updated policy
  and processor objects, or \<open>None\<close> for a division by zero.\<close>

definition algov_update_single ::
  "env \<Rightarrow> algov_policy \<Rightarrow> algov_cpu \<Rightarrow> u64 \<Rightarrow> u32 \<Rightarrow> u64 \<Rightarrow> (algov_policy \<times> algov_cpu) option" where
  "algov_update_single e sg_policy sg_cpu time fl util_uninit =
     (let c1 = algov_set_iowait_boost e sg_policy sg_cpu time;
          c2 = c1\<lparr>last_update := time\<rparr>
      in if work_in_progress sg_policy then Some (sg_policy, c2)
         else if \<not> algov_should_update_freq e sg_policy time then Some (sg_policy, c2)
         else
           let (busy, c3) = (if use_pelt e then algov_cpu_is_busy e c2 else (False, c2));
               c4 = algov_cpu_is_busy_update e c3 util_uninit
           in if fl AND SCHED_CPUFREQ_DL e \<noteq> 0
              then Some (algov_apply sg_policy time (cpuinfo_max_freq (policy sg_policy)), c4)
              else
                (case algov_get_util e time (cpu c4) of
                   None \<Rightarrow> None
                 | Some (u, m) \<Rightarrow>
                     (let (c5, u', m') = algov_iowait_boost sg_policy c4 u m in
                      case get_next_freq e sg_policy u' m' busy of
                        None \<Rightarrow> None
                      | Some (next_f, sp1) \<Rightarrow>
                          (if busy \<and> next_f < next_freq sp1 \<and> next_freq sp1 \<noteq> UINT_MAX
                           then Some (algov_apply (sp1\<lparr>cached_raw_freq := 0\<rparr>) time
                                        (next_freq sp1), c5)
                           else Some (algov_apply sp1 time next_f, c5)))))"

text \<open>The per-processor objects \<open>per_cpu(algov_cpu, j)\<close>, by processor number.\<close>

type_synonym percpu = "nat \<Rightarrow> algov_cpu"

text \<open>The body of the \<open>for_each_cpu\<close> loop of \<open>algov_next_freq_shared\<close>, over the
  processors still to scan.  The loop state is the per-processor objects and the locals
  \<open>util\<close>, \<open>max\<close>, \<open>sg_cpu_util\<close> and \<open>busy\<close>; \<open>p\<close> is the processor whose update
  runs the evaluation (\<open>j_sg_cpu == sg_cpu\<close> is \<open>j = p\<close>).  \<open>Inl\<close> is the early
  \<open>return policy->cpuinfo.max_freq\<close>, with the objects as they are then.\<close>

fun algov_next_freq_shared_loop ::
  "env \<Rightarrow> algov_policy \<Rightarrow> nat \<Rightarrow> u64 \<Rightarrow> nat list \<Rightarrow> percpu \<times> u64 \<times> u64 \<times> u64 \<times> bool
     \<Rightarrow> percpu + (percpu \<times> u64 \<times> u64 \<times> u64 \<times> bool)" where
  "algov_next_freq_shared_loop e sg_policy p time [] s = Inr s"
| "algov_next_freq_shared_loop e sg_policy p time (j # js) (st, u, m, sg_cpu_util, busy) =
     (let j_sg_cpu = st j;
          delta_ns = time - last_update j_sg_cpu
      in if uint (stale_ns e) < sint delta_ns
         then algov_next_freq_shared_loop e sg_policy p time js
                (st(j := j_sg_cpu\<lparr>iowait_boost := 0, iowait_boost_pending := False\<rparr>),
                 u, m, sg_cpu_util, busy)
         else if flags j_sg_cpu AND SCHED_CPUFREQ_DL e \<noteq> 0 then Inl st
         else
           let j_util = util j_sg_cpu;
               sg_cpu_util' = (if j = p then j_util else sg_cpu_util);
               j_max = max_cap j_sg_cpu;
               (b, c1) = algov_cpu_is_busy e j_sg_cpu;
               busy' = (busy \<or> b);
               (u1, m1) = (if j_max * u < j_util * m then (j_util, j_max) else (u, m));
               (c2, u2, m2) = algov_iowait_boost sg_policy c1 u1 m1
           in algov_next_freq_shared_loop e sg_policy p time js
                (st(j := c2), u2, m2, sg_cpu_util', busy'))"

text \<open>\<open>algov_next_freq_shared\<close>: the frequency, the updated policy and per-processor
  objects; \<open>None\<close> for a division by zero.\<close>

definition algov_next_freq_shared ::
  "env \<Rightarrow> algov_policy \<Rightarrow> percpu \<Rightarrow> nat \<Rightarrow> u64 \<Rightarrow> (u32 \<times> algov_policy \<times> percpu) option" where
  "algov_next_freq_shared e sg_policy st p time =
     (case algov_next_freq_shared_loop e sg_policy p time (cpus (policy sg_policy))
             (st, 0, 1, 0, False) of
        Inl st' \<Rightarrow> Some (cpuinfo_max_freq (policy sg_policy), sg_policy, st')
      | Inr (st', u, m, sg_cpu_util, busy) \<Rightarrow>
          (let st'' = st'(p := algov_cpu_is_busy_update e (st' p) sg_cpu_util) in
           case get_next_freq e sg_policy u m busy of
             None \<Rightarrow> None
           | Some (f, sp) \<Rightarrow> Some (f, sp, st'')))"

text \<open>\<open>algov_update_shared\<close>, run for processor \<open>p\<close>.\<close>

definition algov_update_shared ::
  "env \<Rightarrow> algov_policy \<Rightarrow> percpu \<Rightarrow> nat \<Rightarrow> u64 \<Rightarrow> u32 \<Rightarrow> (algov_policy \<times> percpu) option" where
  "algov_update_shared e sg_policy st p time fl =
     (case algov_get_util e time (cpu (st p)) of
        None \<Rightarrow> None
      | Some (u, m) \<Rightarrow>
          (let c0 = (st p)\<lparr>util := u, max_cap := m, flags := fl\<rparr>;
               c1 = algov_set_iowait_boost e sg_policy c0 time;
               c2 = c1\<lparr>last_update := time\<rparr>;
               st1 = st(p := c2)
           in if algov_should_update_freq e sg_policy time then
                (if fl AND SCHED_CPUFREQ_DL e \<noteq> 0
                 then Some (algov_apply sg_policy time (cpuinfo_max_freq (policy sg_policy)),
                            st1)
                 else
                   (case algov_next_freq_shared e sg_policy st1 p time of
                      None \<Rightarrow> None
                    | Some (next_f, sp, st2) \<Rightarrow> Some (algov_apply sp time next_f, st2)))
              else Some (sg_policy, st1)))"

subsection \<open>The sysfs interface\<close>

text \<open>The attribute set of a tunables object: the tunables and the policies on its
  \<open>policy_list\<close>.  Both store functions start with \<open>return count;\<close>, so nothing after
  it runs; the result is the returned \<open>ssize_t\<close> and the attribute set after the call.\<close>

record gov_attr_set =
  attr_tunables :: algov_tunables
  policy_list :: "algov_policy list"

definition up_rate_limit_us_store :: "gov_attr_set \<Rightarrow> string \<Rightarrow> u64 \<Rightarrow> u64 \<times> gov_attr_set" where
  "up_rate_limit_us_store attr_set buf count = (count, attr_set)"

definition down_rate_limit_us_store :: "gov_attr_set \<Rightarrow> string \<Rightarrow> u64 \<Rightarrow> u64 \<times> gov_attr_set" where
  "down_rate_limit_us_store attr_set buf count = (count, attr_set)"

subsection \<open>Sequences of rate-limiter evaluations\<close>

text \<open>A sequence of calls of \<open>algov_update_next_freq\<close> on one policy, each with its time
  and candidate frequency, as the apply path makes them one after the other.  The result
  lists the accepted candidates in order: the time of the call, and whether the change
  was upward (the candidate above \<open>next_freq\<close>).\<close>

fun accepted_changes :: "algov_policy \<Rightarrow> (u64 \<times> u32) list \<Rightarrow> (u64 \<times> bool) list" where
  "accepted_changes sg_policy [] = []"
| "accepted_changes sg_policy ((t, f) # es) =
     (let (changed, sp) = algov_update_next_freq sg_policy t f in
      if changed then (t, next_freq sg_policy < f) # accepted_changes sp es
      else accepted_changes sp es)"

subsection \<open>The aggregation over a policy: vocabulary\<close>

text \<open>A member is stale when the loop of \<open>algov_next_freq_shared\<close> skips it:
  \<open>delta_ns > stale_ns\<close>.  The members that are not stale, in scan order.\<close>

definition member_stale :: "env \<Rightarrow> u64 \<Rightarrow> algov_cpu \<Rightarrow> bool" where
  "member_stale e time c = (uint (stale_ns e) < sint (time - last_update c))"

definition fresh_members :: "env \<Rightarrow> u64 \<Rightarrow> percpu \<Rightarrow> nat list \<Rightarrow> nat list" where
  "fresh_members e time st js = filter (\<lambda>j. \<not> member_stale e time (st j)) js"

text \<open>The comparison of the loop alone, on the \<open>(util, max)\<close> pairs of the members in
  scan order: the running pair is replaced when \<open>j_util * max > j_max * util\<close>.\<close>

fun max_ratio_scan :: "(u64 \<times> u64) list \<Rightarrow> u64 \<times> u64 \<Rightarrow> u64 \<times> u64" where
  "max_ratio_scan [] acc = acc"
| "max_ratio_scan ((j_util, j_max) # ps) (u, m) =
     max_ratio_scan ps (if j_max * u < j_util * m then (j_util, j_max) else (u, m))"

text \<open>Ratios \<open>util / max\<close> compared over the naturals by cross multiplication, and the
  pairs on which the 64-bit products of the loop cannot overflow and the ratio is defined:
  both components below \<open>2^32\<close> and a capacity above zero.\<close>

definition ratio_bounded :: "u64 \<times> u64 \<Rightarrow> bool" where
  "ratio_bounded p = (unat (fst p) < 2 ^ 32 \<and> 0 < unat (snd p) \<and> unat (snd p) < 2 ^ 32)"

definition ratio_le :: "u64 \<times> u64 \<Rightarrow> u64 \<times> u64 \<Rightarrow> bool" where
  "ratio_le p q = (unat (fst p) * unat (snd q) \<le> unat (fst q) * unat (snd p))"

definition ratio_less :: "u64 \<times> u64 \<Rightarrow> u64 \<times> u64 \<Rightarrow> bool" where
  "ratio_less p q = (unat (fst p) * unat (snd q) < unat (fst q) * unat (snd p))"

text \<open>The aggregation in the words of the specification (C6), to be compared with the
  loop: among the members that are not stale, select the pair of the one member with
  the strictly greatest ratio, by the cross-multiplied comparison, an earlier member
  staying selected on a tie; apply the io-wait boost of that selected member to the
  pair; the busy flag is the disjunction of the members' busy states.
  \<open>select_max_ratio\<close> carries the selected member along.\<close>

fun select_max_ratio ::
  "percpu \<Rightarrow> nat list \<Rightarrow> u64 \<times> u64 \<times> nat option \<Rightarrow> u64 \<times> u64 \<times> nat option" where
  "select_max_ratio st [] s = s"
| "select_max_ratio st (j # js) (u, m, sel) =
     select_max_ratio st js
       (if max_cap (st j) * u < util (st j) * m then (util (st j), max_cap (st j), Some j)
        else (u, m, sel))"

definition aggregate_spec ::
  "env \<Rightarrow> algov_policy \<Rightarrow> percpu \<Rightarrow> u64 \<Rightarrow> nat list \<Rightarrow> u64 \<times> u64 \<times> bool" where
  "aggregate_spec e sg_policy st time js =
     (let members = fresh_members e time st js;
          (u, m, sel) = select_max_ratio st members (0, 1, None);
          (u', m') = (case sel of None \<Rightarrow> (u, m)
                      | Some j \<Rightarrow> snd (algov_iowait_boost sg_policy (st j) u m));
          busy = list_ex (\<lambda>j. fst (algov_cpu_is_busy e (st j))) members
      in (u', m', busy))"

subsection \<open>A concrete policy\<close>

text \<open>A two-processor policy with the rate limits that \<open>algov_init\<close> hard-codes
  (500 us up, 20000 us down), at frequency 1000, last changed at time 0.\<close>

definition ex_policy :: algov_policy where
  "ex_policy =
     \<lparr>policy = \<lparr>cur = 1000, min_freq = 300, cpuinfo_max_freq = 2000,
                 fast_switch_enabled = False, cpus = [0, 1]\<rparr>,
      tunables = \<lparr>up_rate_limit_us = 500, down_rate_limit_us = 20000,
                   iowait_boost_enable = True\<rparr>,
      last_freq_update_time = 0, min_rate_limit_ns = 500000,
      up_rate_delay_ns = 500000, down_rate_delay_ns = 20000000,
      next_freq = 1000, cached_raw_freq = 0, work_in_progress = False,
      need_freq_update = False, irq_work_queued = 0\<rparr>"

text \<open>An environment: the flag bits of linux/sched/cpufreq.h, a 10 ms tick, a 22.5 ms
  staleness window, no energy model (\<open>em_pd_get_higher_freq\<close> returns the frequency it
  is given), the mainline \<open>map_util_freq\<close>, a driver that clamps to the policy limits,
  and processors of capacity 1024 with utilization 100 whose idle-entry counters read 7.\<close>

definition ex_env :: env where
  "ex_env =
     \<lparr>SCHED_CPUFREQ_DL = 2, SCHED_CPUFREQ_IOWAIT = 4, TICK_NSEC = 10000000,
      SCHED_CAPACITY_SHIFT = 10, stale_ns = 22500000,
      arch_scale_freq_invariant = True, use_pelt = True,
      cpufreq_this_cpu_can_update = True,
      tick_nohz_get_idle_calls = 7, tick_nohz_get_idle_calls_cpu = (\<lambda>c. 7),
      map_util_freq = (\<lambda>u f m. (f + drop_bit 2 f) * u div m),
      em_pd_get_higher_freq = (\<lambda>f c. f),
      cpufreq_driver_resolve_freq = (\<lambda>p f. max (min_freq p) (min f (cpuinfo_max_freq p))),
      arch_scale_cpu_capacity = (\<lambda>c. 1024), rq_age_stamp = (\<lambda>c. 0),
      rq_rt_avg = (\<lambda>c. 0), sched_avg_period = 500000000,
      boosted_cpu_util = (\<lambda>c. 100)\<rparr>"

text \<open>A processor object as \<open>algov_start\<close> leaves it (\<open>flags = SCHED_CPUFREQ_DL\<close>), that
  last saw the idle-entry counter at 7.\<close>

definition ex_cpu :: algov_cpu where
  "ex_cpu =
     \<lparr>iowait_boost_pending = False, iowait_boost = 0, iowait_boost_max = 2000,
      last_update = 0, util = 0, max_cap = 0, flags = 2, cpu = 0,
      saved_idle_calls = 7, previous_util = 0\<rparr>"

text \<open>The per-processor objects of the two-processor policy, last updated at 29 ms
  with no flags.  Processor 1 has utilization 50, a pending io-wait boost of 1000 and
  last saw the idle-entry counter at 5; every other processor has utilization 100, no
  boost, and last saw the counter at 7.\<close>

definition ex_percpu :: percpu where
  "ex_percpu = (\<lambda>j.
     if j = 1
     then \<lparr>iowait_boost_pending = True, iowait_boost = 1000, iowait_boost_max = 2000,
           last_update = 29000000, util = 50, max_cap = 1024, flags = 0, cpu = 1,
           saved_idle_calls = 5, previous_util = 0\<rparr>
     else \<lparr>iowait_boost_pending = False, iowait_boost = 0, iowait_boost_max = 2000,
           last_update = 29000000, util = 100, max_cap = 1024, flags = 0, cpu = j,
           saved_idle_calls = 7, previous_util = 0\<rparr>)"

text \<open>\<open>ex_policy\<close> with the io-wait boost switched off in the tunables, as \<open>algov_init\<close>
  leaves it.\<close>

definition ex_policy_noboost :: algov_policy where
  "ex_policy_noboost =
     ex_policy\<lparr>tunables := \<lparr>up_rate_limit_us = 500, down_rate_limit_us = 20000,
                               iowait_boost_enable = False\<rparr>\<rparr>"

text \<open>Five candidates for \<open>ex_policy\<close>: up at 30 ms, up again 0.1 ms later and 1 ms
  later, down at 40 ms and at 60 ms.\<close>

definition ex_candidates :: "(u64 \<times> u32) list" where
  "ex_candidates =
     [(30000000, 2000), (30100000, 2500), (31000000, 2500), (40000000, 500), (60000000, 500)]"

text \<open>The same processors with no io-wait boost.\<close>

definition ex_percpu_plain :: percpu where
  "ex_percpu_plain = (\<lambda>j. (ex_percpu j)\<lparr>iowait_boost := 0, iowait_boost_pending := False\<rparr>)"

text \<open>The per-processor objects as \<open>algov_start\<close> leaves them.\<close>

definition ex_percpu_start :: percpu where
  "ex_percpu_start = (\<lambda>j. ex_cpu\<lparr>cpu := j\<rparr>)"

section \<open>Properties\<close>

subsection \<open>Accepted candidates (C1)\<close>

lemma unat_drop_bit_sum:
  fixes a b :: u32
  assumes "unat a + unat b < 2 ^ 32"
  shows "unat (drop_bit 1 (a + b)) = (unat a + unat b) div 2"
proof -
  have "unat (a + b) = unat a + unat b"
    using assms by (simp add: unat_word_ariths)
  then show ?thesis
    by (simp add: drop_bit_eq_div unat_div)
qed

text \<open>
  C1 as the specification states it: a candidate that passes the rate-limit checks is
  taken as it is when it lies below \<open>next_freq\<close> and averaged with \<open>next_freq\<close> when
  it lies above.  The code does the opposite.  At time 30 ms, beyond both rate limits,
  the upward candidate 2000 on \<open>next_freq = 1000\<close> is stored as 2000, not as 1500, and
  the downward candidate 400 is stored as 700, not as 400.
\<close>

theorem algov_update_next_freq_direction_counterexample:
  "\<not> algov_up_down_rate_limit ex_policy 30000000 2000
   \<and> next_freq ex_policy < 2000
   \<and> unat (next_freq (snd (algov_update_next_freq ex_policy 30000000 2000)))
       \<noteq> (unat (next_freq ex_policy) + unat (2000 :: u32)) div 2
   \<and> \<not> algov_up_down_rate_limit ex_policy 30000000 400
   \<and> 400 < next_freq ex_policy
   \<and> next_freq (snd (algov_update_next_freq ex_policy 30000000 400)) \<noteq> 400"
  by (simp add: ex_policy_def algov_up_down_rate_limit_def algov_update_next_freq_def)

text \<open>
  C1, amended: for every candidate frequency \<open>f\<close> that passes the rate-limit checks at
  time \<open>time\<close>, an upward change (\<open>f\<close> above \<open>next_freq\<close>) is accepted as it is, and a
  downward change (\<open>f\<close> below \<open>next_freq\<close>) is dampened: \<open>next_freq\<close> becomes
  \<open>(next_freq + f) >> 1\<close> in 32-bit arithmetic, which is the floor of the mean of the
  two whenever their sum fits in 32 bits.  Both record \<open>time\<close> as the time of the last
  change and report the change to the caller.
\<close>

theorem algov_update_next_freq_accepted:
  assumes "\<not> algov_up_down_rate_limit sg_policy time f"
  shows "(next_freq sg_policy < f \<longrightarrow>
            algov_update_next_freq sg_policy time f
              = (True, sg_policy\<lparr>next_freq := f, last_freq_update_time := time\<rparr>))
       \<and> (f < next_freq sg_policy \<longrightarrow>
            algov_update_next_freq sg_policy time f
              = (True, sg_policy\<lparr>next_freq := drop_bit 1 (next_freq sg_policy + f),
                                 last_freq_update_time := time\<rparr>))
       \<and> (f < next_freq sg_policy \<and> unat (next_freq sg_policy) + unat f < 2 ^ 32 \<longrightarrow>
            unat (next_freq (snd (algov_update_next_freq sg_policy time f)))
              = (unat (next_freq sg_policy) + unat f) div 2)"
  using assms unat_drop_bit_sum [of "next_freq sg_policy" f]
  by (auto simp: algov_update_next_freq_def)

text \<open>The amended C1 at \<open>ex_policy\<close>: the candidates 2000 and 400 at time 30 ms.\<close>

theorem algov_update_next_freq_accepted_witness:
  "\<not> algov_up_down_rate_limit ex_policy 30000000 2000
   \<and> next_freq ex_policy < 2000
   \<and> algov_update_next_freq ex_policy 30000000 2000
       = (True, ex_policy\<lparr>next_freq := 2000, last_freq_update_time := 30000000\<rparr>)
   \<and> \<not> algov_up_down_rate_limit ex_policy 30000000 400
   \<and> 400 < next_freq ex_policy
   \<and> unat (next_freq ex_policy) + unat (400 :: u32) < 2 ^ 32
   \<and> unat (next_freq (snd (algov_update_next_freq ex_policy 30000000 400))) = 700"
proof -
  have up: "\<not> algov_up_down_rate_limit ex_policy 30000000 2000"
    by (simp add: ex_policy_def algov_up_down_rate_limit_def)
  have down: "\<not> algov_up_down_rate_limit ex_policy 30000000 400"
    by (simp add: ex_policy_def algov_up_down_rate_limit_def)
  have lt: "next_freq ex_policy < 2000" "400 < next_freq ex_policy"
    "unat (next_freq ex_policy) + unat (400 :: u32) < 2 ^ 32"
    by (simp_all add: ex_policy_def)
  show ?thesis
    using algov_update_next_freq_accepted [OF up] algov_update_next_freq_accepted [OF down]
      up down lt
    by (simp add: ex_policy_def)
qed

subsection \<open>Facts shared by the properties\<close>

lemma algov_set_iowait_boost_frame:
  "iowait_boost_max (algov_set_iowait_boost e sp c t) = iowait_boost_max c
   \<and> last_update (algov_set_iowait_boost e sp c t) = last_update c
   \<and> util (algov_set_iowait_boost e sp c t) = util c
   \<and> max_cap (algov_set_iowait_boost e sp c t) = max_cap c
   \<and> flags (algov_set_iowait_boost e sp c t) = flags c
   \<and> cpu (algov_set_iowait_boost e sp c t) = cpu c
   \<and> saved_idle_calls (algov_set_iowait_boost e sp c t) = saved_idle_calls c
   \<and> previous_util (algov_set_iowait_boost e sp c t) = previous_util c"
  by (simp add: algov_set_iowait_boost_def Let_def)

lemma algov_update_next_freq_same:
  "algov_update_next_freq sp t (next_freq sp) = (False, sp)"
  by (simp add: algov_update_next_freq_def algov_up_down_rate_limit_def)

lemma algov_apply_same: "algov_apply sp t (next_freq sp) = sp"
  by (simp add: algov_apply_def algov_fast_switch_def algov_deferred_update_def
      algov_update_next_freq_same)

lemma get_next_freq_raw_cong:
  "policy sp' = policy sp \<Longrightarrow> get_next_freq_raw e sp' u m b = get_next_freq_raw e sp u m b"
  by (simp add: get_next_freq_raw_def)




lemma algov_apply_next_freq_mono:
  "next_freq sp \<le> f \<Longrightarrow> next_freq sp \<le> next_freq (algov_apply sp t f)"
  by (auto simp: algov_apply_def algov_fast_switch_def algov_deferred_update_def
         cpufreq_driver_fast_switch_def algov_update_next_freq_def Let_def)

text \<open>The concrete environment at work: processor 0 at time 30 ms.\<close>

lemma ex_get_util: "algov_get_util ex_env 30000000 0 = Some (100, 1024)"
  by (simp add: algov_get_util_def ex_env_def)

lemma ex_raw: "get_next_freq_raw ex_env ex_policy 100 1024 busy = 29"
  by (simp add: get_next_freq_raw_def ex_env_def ex_policy_def)

lemma ex_get_next_freq:
  "get_next_freq ex_env ex_policy 100 1024 busy
     = Some (300, ex_policy\<lparr>need_freq_update := False, cached_raw_freq := 29\<rparr>)"
  by (simp add: get_next_freq_def ex_raw) (simp add: ex_env_def ex_policy_def)

lemma ex_gate: "algov_should_update_freq ex_env ex_policy 30000000"
  by (simp add: algov_should_update_freq_def ex_env_def ex_policy_def)

subsection \<open>The raw-frequency cache (C5)\<close>




subsection \<open>Writes to the rate-limit tunables (C8)\<close>

text \<open>
  C8: every write to the up-rate-limit or down-rate-limit tunable returns the full input
  count, whatever the buffer holds, and leaves the stored windows of the tunables and
  the up, down and minimum rate-limit delays of every attached policy unchanged.
\<close>

theorem rate_limit_us_store_ignored:
  "up_rate_limit_us_store attr_set buf count = (count, attr_set)
   \<and> down_rate_limit_us_store attr_set buf count = (count, attr_set)
   \<and> attr_tunables (snd (up_rate_limit_us_store attr_set buf count)) = attr_tunables attr_set
   \<and> attr_tunables (snd (down_rate_limit_us_store attr_set buf count))
       = attr_tunables attr_set
   \<and> map (\<lambda>sp. (up_rate_delay_ns sp, down_rate_delay_ns sp, min_rate_limit_ns sp))
        (policy_list (snd (up_rate_limit_us_store attr_set buf count)))
     = map (\<lambda>sp. (up_rate_delay_ns sp, down_rate_delay_ns sp, min_rate_limit_ns sp))
        (policy_list attr_set)
   \<and> map (\<lambda>sp. (up_rate_delay_ns sp, down_rate_delay_ns sp, min_rate_limit_ns sp))
        (policy_list (snd (down_rate_limit_us_store attr_set buf count)))
     = map (\<lambda>sp. (up_rate_delay_ns sp, down_rate_delay_ns sp, min_rate_limit_ns sp))
        (policy_list attr_set)"
  by (simp add: up_rate_limit_us_store_def down_rate_limit_us_store_def)

subsection \<open>The single-processor hook while work is in progress (C10)\<close>

text \<open>
  C10: in the single-processor update path, while a deferred actuation is in progress
  (\<open>work_in_progress\<close> is set), an update evaluates no frequency and changes nothing of
  the policy object (rate-limiter state, \<open>next_freq\<close>, the raw-frequency cache, the
  queue of deferred work): the processor object gets the io-wait boost bookkeeping of
  \<open>algov_set_iowait_boost\<close> and the new \<open>last_update\<close>, so it differs from the old one in
  \<open>iowait_boost\<close>, \<open>iowait_boost_pending\<close> and \<open>last_update\<close> at most.
\<close>

theorem algov_update_single_work_in_progress:
  assumes "work_in_progress sg_policy"
  shows "algov_update_single e sg_policy sg_cpu time fl util_uninit
           = Some (sg_policy,
                   (algov_set_iowait_boost e sg_policy sg_cpu time)\<lparr>last_update := time\<rparr>)
       \<and> (\<exists>b pnd. algov_update_single e sg_policy sg_cpu time fl util_uninit
           = Some (sg_policy,
                   sg_cpu\<lparr>iowait_boost_pending := pnd, iowait_boost := b,
                          last_update := time\<rparr>))"
proof -
  let ?c1 = "algov_set_iowait_boost e sg_policy sg_cpu time"
  have 1: "algov_update_single e sg_policy sg_cpu time fl util_uninit
           = Some (sg_policy, ?c1\<lparr>last_update := time\<rparr>)"
    using assms by (simp add: algov_update_single_def Let_def)
  have "?c1 = sg_cpu\<lparr>iowait_boost_pending := iowait_boost_pending ?c1,
                       iowait_boost := iowait_boost ?c1\<rparr>"
    by (rule algov_cpu.equality) (simp_all add: algov_set_iowait_boost_frame)
  then have "\<exists>b pnd. ?c1 = sg_cpu\<lparr>iowait_boost_pending := pnd, iowait_boost := b\<rparr>"
    by blast
  then obtain b pnd where "?c1 = sg_cpu\<lparr>iowait_boost_pending := pnd, iowait_boost := b\<rparr>"
    by blast
  with 1 show ?thesis by auto
qed

text \<open>C10 at \<open>ex_policy\<close> with work in progress: an update at 30 ms for a processor
  whose recorded flags carry the io-wait flag seeds the boost with the policy minimum
  300 and stamps the processor; the policy is untouched.\<close>

theorem algov_update_single_work_in_progress_witness:
  "work_in_progress (ex_policy\<lparr>work_in_progress := True\<rparr>)
   \<and> algov_update_single ex_env (ex_policy\<lparr>work_in_progress := True\<rparr>)
        (ex_cpu\<lparr>flags := 4\<rparr>) 30000000 4 0
      = Some (ex_policy\<lparr>work_in_progress := True\<rparr>,
              ex_cpu\<lparr>flags := 4, iowait_boost_pending := True, iowait_boost := 300,
                     last_update := 30000000\<rparr>)"
proof -
  have h: "work_in_progress (ex_policy\<lparr>work_in_progress := True\<rparr>)" by simp
  have s: "algov_set_iowait_boost ex_env (ex_policy\<lparr>work_in_progress := True\<rparr>)
             (ex_cpu\<lparr>flags := 4\<rparr>) 30000000
     = ex_cpu\<lparr>flags := 4, iowait_boost_pending := True, iowait_boost := 300\<rparr>"
    by (simp add: algov_set_iowait_boost_def ex_env_def ex_policy_def ex_cpu_def)
  show ?thesis
    using algov_update_single_work_in_progress
            [OF h, of ex_env "ex_cpu\<lparr>flags := 4\<rparr>" 30000000 4 0] s
    by simp
qed

subsection \<open>A busy processor in the single-processor hook (C9)\<close>

lemma ex_cpu_after_busy_update:
  "algov_cpu_is_busy_update ex_env
     (snd (algov_cpu_is_busy ex_env
        ((algov_set_iowait_boost ex_env ex_policy ex_cpu 30000000)
           \<lparr>last_update := 30000000\<rparr>))) 0
     = ex_cpu\<lparr>last_update := 30000000, saved_idle_calls := 6\<rparr>"
proof -
  have "(algov_set_iowait_boost ex_env ex_policy ex_cpu 30000000)\<lparr>last_update := 30000000\<rparr>
      = ex_cpu\<lparr>last_update := 30000000\<rparr>"
    by (simp add: algov_set_iowait_boost_def ex_env_def ex_policy_def ex_cpu_def)
  moreover have "algov_cpu_is_busy ex_env (ex_cpu\<lparr>last_update := 30000000\<rparr>)
      = (True, ex_cpu\<lparr>last_update := 30000000\<rparr>)"
    by (simp add: algov_cpu_is_busy_def ex_env_def ex_cpu_def)
  moreover have "algov_cpu_is_busy_update ex_env (ex_cpu\<lparr>last_update := 30000000\<rparr>) 0
      = ex_cpu\<lparr>last_update := 30000000, saved_idle_calls := 6\<rparr>"
    by (simp add: algov_cpu_is_busy_update_def ex_env_def ex_cpu_def)
  ultimately show ?thesis by simp
qed

lemma ex_cpu_iowait_boost:
  "algov_iowait_boost ex_policy (ex_cpu\<lparr>last_update := 30000000, saved_idle_calls := 6\<rparr>)
     100 1024
     = (ex_cpu\<lparr>last_update := 30000000, saved_idle_calls := 6\<rparr>, 100, 1024)"
  by (simp add: algov_iowait_boost_def ex_cpu_def)

text \<open>
  C9: in the single-processor update path, let an update be evaluated (no work in
  progress, the evaluation gate open, no deadline flag) for a processor classified busy
  (\<open>use_pelt\<close> holds and the idle-entry counter equals the saved one), with \<open>next_freq\<close>
  other than \<open>UINT_MAX\<close>, and let \<open>next_f\<close> be the frequency that \<open>get_next_freq\<close>
  computes from the utilization read by \<open>algov_get_util\<close> and boosted by
  \<open>algov_iowait_boost\<close>.  When \<open>next_f\<close> is lower than \<open>next_freq\<close>, the hook discards
  it: it returns with the cached raw frequency reset to zero, the candidate handed to
  the apply path is the current \<open>next_freq\<close>, and the apply path changes nothing (same
  \<open>next_freq\<close>, same time of the last change, no work queued).  Otherwise \<open>next_f\<close>
  itself is handed to the apply path.  Either way the hook returns and the evaluation
  never reduces \<open>next_freq\<close>.
\<close>

theorem algov_update_single_busy_keeps_freq:
  assumes wip: "\<not> work_in_progress sg_policy"
    and gate: "algov_should_update_freq e sg_policy time"
    and ndl: "fl AND SCHED_CPUFREQ_DL e = 0"
    and busy: "use_pelt e" "tick_nohz_get_idle_calls e = saved_idle_calls sg_cpu"
    and nmax: "next_freq sg_policy \<noteq> UINT_MAX"
    and gu: "algov_get_util e time (cpu sg_cpu) = Some (u, m)"
    and ib: "algov_iowait_boost sg_policy
               (algov_cpu_is_busy_update e
                  (snd (algov_cpu_is_busy e
                     ((algov_set_iowait_boost e sg_policy sg_cpu time)
                        \<lparr>last_update := time\<rparr>)))
                  util_uninit) u m = (c5, u', m')"
    and gn: "get_next_freq e sg_policy u' m' True = Some (next_f, sp1)"
  shows "(next_f < next_freq sg_policy \<longrightarrow>
            algov_update_single e sg_policy sg_cpu time fl util_uninit
              = Some (sp1\<lparr>cached_raw_freq := 0\<rparr>, c5)
            \<and> algov_update_single e sg_policy sg_cpu time fl util_uninit
              = Some (algov_apply (sp1\<lparr>cached_raw_freq := 0\<rparr>) time (next_freq sg_policy),
                      c5)
            \<and> next_freq (sp1\<lparr>cached_raw_freq := 0\<rparr>) = next_freq sg_policy
            \<and> cached_raw_freq (sp1\<lparr>cached_raw_freq := 0\<rparr>) = 0
            \<and> last_freq_update_time (sp1\<lparr>cached_raw_freq := 0\<rparr>)
                = last_freq_update_time sg_policy
            \<and> work_in_progress (sp1\<lparr>cached_raw_freq := 0\<rparr>) = work_in_progress sg_policy
            \<and> irq_work_queued (sp1\<lparr>cached_raw_freq := 0\<rparr>) = irq_work_queued sg_policy)
       \<and> (\<not> next_f < next_freq sg_policy \<longrightarrow>
            algov_update_single e sg_policy sg_cpu time fl util_uninit
              = Some (algov_apply sp1 time next_f, c5))
       \<and> (\<exists>sp'. algov_update_single e sg_policy sg_cpu time fl util_uninit = Some (sp', c5)
                 \<and> next_freq sg_policy \<le> next_freq sp')"
proof -
  let ?c2 = "(algov_set_iowait_boost e sg_policy sg_cpu time)\<lparr>last_update := time\<rparr>"
  let ?c4 = "algov_cpu_is_busy_update e (snd (algov_cpu_is_busy e ?c2)) util_uninit"
  have b: "fst (algov_cpu_is_busy e ?c2)"
    using busy by (simp add: algov_cpu_is_busy_def algov_set_iowait_boost_frame)
  have cpu4: "cpu ?c4 = cpu sg_cpu"
    by (simp add: algov_cpu_is_busy_update_def algov_cpu_is_busy_def Let_def
        algov_set_iowait_boost_frame)
  have nf1: "next_freq sp1 = next_freq sg_policy"
    and others: "last_freq_update_time sp1 = last_freq_update_time sg_policy"
      "work_in_progress sp1 = work_in_progress sg_policy"
      "irq_work_queued sp1 = irq_work_queued sg_policy"
    using gn by (auto simp: get_next_freq_def Let_def split: if_splits)
  have out: "algov_update_single e sg_policy sg_cpu time fl util_uninit =
      (if next_f < next_freq sp1
       then Some (algov_apply (sp1\<lparr>cached_raw_freq := 0\<rparr>) time (next_freq sp1), c5)
       else Some (algov_apply sp1 time next_f, c5))"
    using wip gate ndl busy(1) b cpu4 gu ib gn nmax nf1
    by (simp add: algov_update_single_def Let_def split_def)
  have same: "algov_apply (sp1\<lparr>cached_raw_freq := 0\<rparr>) time (next_freq sp1)
                = sp1\<lparr>cached_raw_freq := 0\<rparr>"
    using algov_apply_same [of "sp1\<lparr>cached_raw_freq := 0\<rparr>" time] by simp
  have low: "algov_update_single e sg_policy sg_cpu time fl util_uninit
              = Some (sp1\<lparr>cached_raw_freq := 0\<rparr>, c5)
            \<and> algov_update_single e sg_policy sg_cpu time fl util_uninit
              = Some (algov_apply (sp1\<lparr>cached_raw_freq := 0\<rparr>) time (next_freq sg_policy),
                      c5)"
    if "next_f < next_freq sg_policy"
    using that out same nf1 by simp
  have high: "algov_update_single e sg_policy sg_cpu time fl util_uninit
              = Some (algov_apply sp1 time next_f, c5)"
    if "\<not> next_f < next_freq sg_policy"
    using that out nf1 by simp
  have mono: "\<exists>sp'. algov_update_single e sg_policy sg_cpu time fl util_uninit
                       = Some (sp', c5)
                 \<and> next_freq sg_policy \<le> next_freq sp'"
  proof (cases "next_f < next_freq sg_policy")
    case True
    from low [OF True] nf1 show ?thesis by simp
  next
    case False
    then have "next_freq sp1 \<le> next_f" using nf1 by simp
    from algov_apply_next_freq_mono [OF this, of time] high [OF False] nf1
    show ?thesis by simp
  qed
  show ?thesis
  proof (intro conjI impI)
    show "\<exists>sp'. algov_update_single e sg_policy sg_cpu time fl util_uninit = Some (sp', c5)
                 \<and> next_freq sg_policy \<le> next_freq sp'"
      by (rule mono)
  qed (use low high nf1 others same in simp_all)
qed

text \<open>C9 at \<open>ex_policy\<close>: the busy processor \<open>ex_cpu\<close> reports utilization 100 of 1024 at
  30 ms; the selector computes 300, below \<open>next_freq = 1000\<close>, and the update ends with
  the policy as it was, \<open>next_freq = 1000\<close> and the cache at zero.\<close>

theorem algov_update_single_busy_keeps_freq_witness:
  "\<not> work_in_progress ex_policy
   \<and> algov_should_update_freq ex_env ex_policy 30000000
   \<and> (0 :: u32) AND SCHED_CPUFREQ_DL ex_env = 0
   \<and> use_pelt ex_env
   \<and> tick_nohz_get_idle_calls ex_env = saved_idle_calls ex_cpu
   \<and> next_freq ex_policy \<noteq> UINT_MAX
   \<and> algov_get_util ex_env 30000000 (cpu ex_cpu) = Some (100, 1024)
   \<and> algov_iowait_boost ex_policy
        (algov_cpu_is_busy_update ex_env
           (snd (algov_cpu_is_busy ex_env
              ((algov_set_iowait_boost ex_env ex_policy ex_cpu 30000000)
                 \<lparr>last_update := 30000000\<rparr>))) 0) 100 1024
       = (ex_cpu\<lparr>last_update := 30000000, saved_idle_calls := 6\<rparr>, 100, 1024)
   \<and> get_next_freq ex_env ex_policy 100 1024 True
       = Some (300, ex_policy\<lparr>need_freq_update := False, cached_raw_freq := 29\<rparr>)
   \<and> 300 < next_freq ex_policy
   \<and> algov_update_single ex_env ex_policy ex_cpu 30000000 0 0
       = Some (ex_policy\<lparr>need_freq_update := False, cached_raw_freq := 29,
                          cached_raw_freq := 0\<rparr>,
               ex_cpu\<lparr>last_update := 30000000, saved_idle_calls := 6\<rparr>)
   \<and> ex_policy\<lparr>need_freq_update := False, cached_raw_freq := 29, cached_raw_freq := 0\<rparr>
       = ex_policy
   \<and> next_freq ex_policy = 1000
   \<and> cached_raw_freq ex_policy = 0"
proof -
  have h: "\<not> work_in_progress ex_policy" "(0 :: u32) AND SCHED_CPUFREQ_DL ex_env = 0"
    "use_pelt ex_env" "tick_nohz_get_idle_calls ex_env = saved_idle_calls ex_cpu"
    "next_freq ex_policy \<noteq> UINT_MAX" "300 < next_freq ex_policy" "cpu ex_cpu = 0"
    "next_freq ex_policy = 1000" "cached_raw_freq ex_policy = 0"
    by (simp_all add: ex_policy_def ex_env_def ex_cpu_def UINT_MAX_def)
  have fin: "ex_policy\<lparr>need_freq_update := False, cached_raw_freq := 29,
                       cached_raw_freq := 0\<rparr> = ex_policy"
    by (simp add: ex_policy_def)
  have gu: "algov_get_util ex_env 30000000 (cpu ex_cpu) = Some (100, 1024)"
    using h(7) by (simp add: ex_get_util)
  have ib: "algov_iowait_boost ex_policy
        (algov_cpu_is_busy_update ex_env
           (snd (algov_cpu_is_busy ex_env
              ((algov_set_iowait_boost ex_env ex_policy ex_cpu 30000000)
                 \<lparr>last_update := 30000000\<rparr>))) 0) 100 1024
       = (ex_cpu\<lparr>last_update := 30000000, saved_idle_calls := 6\<rparr>, 100, 1024)"
    by (simp only: ex_cpu_after_busy_update ex_cpu_iowait_boost)
  note T = algov_update_single_busy_keeps_freq
             [OF h(1) ex_gate h(2) h(3) h(4) h(5) gu ib ex_get_next_freq [of True]]
  from T h(6) have res: "algov_update_single ex_env ex_policy ex_cpu 30000000 0 0
       = Some (ex_policy\<lparr>need_freq_update := False, cached_raw_freq := 29,
                          cached_raw_freq := 0\<rparr>,
               ex_cpu\<lparr>last_update := 30000000, saved_idle_calls := 6\<rparr>)"
    by blast
  from h ex_gate gu ib ex_get_next_freq [of True] res fin show ?thesis
    by (intro conjI)
qed

subsection \<open>Deadline-class updates (C2)\<close>

lemma ex_gate_closed: "\<not> algov_should_update_freq ex_env ex_policy 100"
  by (simp add: algov_should_update_freq_def ex_env_def ex_policy_def)

lemma ex_gate_forced:
  "algov_should_update_freq ex_env (ex_policy\<lparr>need_freq_update := True\<rparr>) 100"
  by (simp add: algov_should_update_freq_def ex_env_def ex_policy_def)

lemma ex_apply_rejected:
  "algov_apply (ex_policy\<lparr>need_freq_update := True\<rparr>) 100 2000
     = ex_policy\<lparr>need_freq_update := True\<rparr>"
  by (simp add: algov_apply_def algov_deferred_update_def algov_update_next_freq_def
      algov_up_down_rate_limit_def ex_policy_def)

lemma ex_get_util_early: "algov_get_util ex_env 100 (cpu (ex_percpu 0)) = Some (100, 1024)"
  by (simp add: algov_get_util_def ex_env_def ex_percpu_def)

lemma algov_apply_rate_limited:
  "algov_up_down_rate_limit sp t f \<Longrightarrow> algov_apply sp t f = sp\<lparr>cached_raw_freq := 0\<rparr>"
  by (simp add: algov_apply_def algov_fast_switch_def algov_deferred_update_def
      algov_update_next_freq_def)

lemma algov_apply_upward:
  "\<not> algov_up_down_rate_limit sp t f \<Longrightarrow> next_freq sp < f \<Longrightarrow>
     next_freq (algov_apply sp t f) = f \<and> last_freq_update_time (algov_apply sp t f) = t"
  by (auto simp: algov_apply_def algov_fast_switch_def algov_deferred_update_def
         cpufreq_driver_fast_switch_def algov_update_next_freq_def Let_def)

text \<open>
  C2 as the specification states it: an update with the deadline flag requests the
  maximum frequency whatever the prior state, and the rate limiter never rejects or
  delays it.  The code sends such an update through the same gates as any other.  At
  \<open>ex_policy\<close> (frequency 1000, maximum 2000, last change at time 0) a deadline update
  at time 100 ns is dropped by the evaluation gate: the policy is unchanged in the
  single-processor hook.  With a forced refresh pending the gate opens, and then the
  candidate 2000 is rejected by the up rate limit, in both hooks: \<open>next_freq\<close> stays
  1000 and no work is queued.
\<close>

theorem deadline_update_bypass_counterexample:
  "(2 :: u32) AND SCHED_CPUFREQ_DL ex_env \<noteq> 0
   \<and> cpuinfo_max_freq (policy ex_policy) = 2000
   \<and> next_freq ex_policy = 1000
   \<and> irq_work_queued ex_policy = 0
   \<and> map_option fst (algov_update_single ex_env ex_policy ex_cpu 100 2 0) = Some ex_policy
   \<and> map_option fst (algov_update_single ex_env (ex_policy\<lparr>need_freq_update := True\<rparr>)
                        ex_cpu 100 2 0)
       = Some (ex_policy\<lparr>need_freq_update := True\<rparr>)
   \<and> map_option fst (algov_update_shared ex_env (ex_policy\<lparr>need_freq_update := True\<rparr>)
                        ex_percpu 0 100 2)
       = Some (ex_policy\<lparr>need_freq_update := True\<rparr>)"
proof -
  have h: "(2 :: u32) AND SCHED_CPUFREQ_DL ex_env \<noteq> 0"
    "cpuinfo_max_freq (policy ex_policy) = 2000"
    "next_freq ex_policy = 1000" "\<not> work_in_progress ex_policy"
    "irq_work_queued ex_policy = 0"
    by (simp_all add: ex_env_def ex_policy_def)
  show ?thesis
    using h ex_get_util_early ex_gate_closed ex_gate_forced ex_apply_rejected
    by (simp add: algov_update_single_def algov_update_shared_def Let_def split_def)
qed

text \<open>
  C2, amended: for every update carrying the deadline flag that is evaluated (in the
  single-processor hook: no work in progress; in both hooks: \<open>algov_should_update_freq\<close>
  holds), the candidate handed to the apply path is the actuator's maximum frequency
  \<open>cpuinfo.max_freq\<close>, whatever the utilization; an update that is not evaluated
  leaves the policy unchanged.  The apply path treats the candidate like any other:
  inside the rate-limit window it is rejected and the cached raw frequency is reset;
  outside it, a maximum above \<open>next_freq\<close> becomes \<open>next_freq\<close> at once, with the
  time of the change recorded.  (In the shared hook \<open>algov_get_util\<close> runs first and
  must not fail.)
\<close>

theorem deadline_update_candidate:
  assumes dl: "fl AND SCHED_CPUFREQ_DL e \<noteq> 0"
  shows "(\<not> work_in_progress sg_policy \<and> algov_should_update_freq e sg_policy time \<longrightarrow>
            map_option fst (algov_update_single e sg_policy sg_cpu time fl util_uninit)
              = Some (algov_apply sg_policy time (cpuinfo_max_freq (policy sg_policy))))
       \<and> (work_in_progress sg_policy \<or> \<not> algov_should_update_freq e sg_policy time \<longrightarrow>
            map_option fst (algov_update_single e sg_policy sg_cpu time fl util_uninit)
              = Some sg_policy)
       \<and> (algov_get_util e time (cpu (st p)) \<noteq> None
            \<and> algov_should_update_freq e sg_policy time \<longrightarrow>
            map_option fst (algov_update_shared e sg_policy st p time fl)
              = Some (algov_apply sg_policy time (cpuinfo_max_freq (policy sg_policy))))
       \<and> (algov_get_util e time (cpu (st p)) \<noteq> None
            \<and> \<not> algov_should_update_freq e sg_policy time \<longrightarrow>
            map_option fst (algov_update_shared e sg_policy st p time fl) = Some sg_policy)
       \<and> (algov_up_down_rate_limit sg_policy time (cpuinfo_max_freq (policy sg_policy)) \<longrightarrow>
            algov_apply sg_policy time (cpuinfo_max_freq (policy sg_policy))
              = sg_policy\<lparr>cached_raw_freq := 0\<rparr>)
       \<and> (\<not> algov_up_down_rate_limit sg_policy time (cpuinfo_max_freq (policy sg_policy))
            \<and> next_freq sg_policy < cpuinfo_max_freq (policy sg_policy) \<longrightarrow>
            next_freq (algov_apply sg_policy time (cpuinfo_max_freq (policy sg_policy)))
              = cpuinfo_max_freq (policy sg_policy)
            \<and> last_freq_update_time
                (algov_apply sg_policy time (cpuinfo_max_freq (policy sg_policy))) = time)"
proof (intro conjI impI)
  show "map_option fst (algov_update_single e sg_policy sg_cpu time fl util_uninit)
              = Some (algov_apply sg_policy time (cpuinfo_max_freq (policy sg_policy)))"
    if "\<not> work_in_progress sg_policy \<and> algov_should_update_freq e sg_policy time"
    using that dl by (simp add: algov_update_single_def Let_def split_def)
  show "map_option fst (algov_update_single e sg_policy sg_cpu time fl util_uninit)
              = Some sg_policy"
    if "work_in_progress sg_policy \<or> \<not> algov_should_update_freq e sg_policy time"
    using that by (auto simp: algov_update_single_def Let_def split_def)
  show "map_option fst (algov_update_shared e sg_policy st p time fl)
              = Some (algov_apply sg_policy time (cpuinfo_max_freq (policy sg_policy)))"
    if "algov_get_util e time (cpu (st p)) \<noteq> None
          \<and> algov_should_update_freq e sg_policy time"
    using that dl by (auto simp: algov_update_shared_def Let_def split_def)
  show "map_option fst (algov_update_shared e sg_policy st p time fl) = Some sg_policy"
    if "algov_get_util e time (cpu (st p)) \<noteq> None
          \<and> \<not> algov_should_update_freq e sg_policy time"
    using that by (auto simp: algov_update_shared_def Let_def split_def)
qed (simp_all add: algov_apply_rate_limited algov_apply_upward)

text \<open>The amended C2 at \<open>ex_policy\<close>: a deadline update at 30 ms, outside the windows,
  sets \<open>next_freq\<close> to the maximum 2000 and queues the work, in both hooks; at 100 ns
  the gate is closed and the policy stays as it is; at 100 ns with a forced refresh
  the candidate 2000 is rate limited.\<close>

theorem deadline_update_candidate_witness:
  "(2 :: u32) AND SCHED_CPUFREQ_DL ex_env \<noteq> 0
   \<and> \<not> work_in_progress ex_policy \<and> algov_should_update_freq ex_env ex_policy 30000000
   \<and> \<not> algov_up_down_rate_limit ex_policy 30000000 (cpuinfo_max_freq (policy ex_policy))
   \<and> next_freq ex_policy < cpuinfo_max_freq (policy ex_policy)
   \<and> map_option fst (algov_update_single ex_env ex_policy ex_cpu 30000000 2 0)
       = Some (ex_policy\<lparr>next_freq := 2000, last_freq_update_time := 30000000,
                          work_in_progress := True, irq_work_queued := 1\<rparr>)
   \<and> algov_get_util ex_env 30000000 (cpu (ex_percpu 0)) \<noteq> None
   \<and> map_option fst (algov_update_shared ex_env ex_policy ex_percpu 0 30000000 2)
       = Some (ex_policy\<lparr>next_freq := 2000, last_freq_update_time := 30000000,
                          work_in_progress := True, irq_work_queued := 1\<rparr>)
   \<and> \<not> algov_should_update_freq ex_env ex_policy 100
   \<and> map_option fst (algov_update_single ex_env ex_policy ex_cpu 100 2 0) = Some ex_policy
   \<and> algov_get_util ex_env 100 (cpu (ex_percpu 0)) \<noteq> None
   \<and> map_option fst (algov_update_shared ex_env ex_policy ex_percpu 0 100 2) = Some ex_policy
   \<and> algov_up_down_rate_limit (ex_policy\<lparr>need_freq_update := True\<rparr>) 100
        (cpuinfo_max_freq (policy (ex_policy\<lparr>need_freq_update := True\<rparr>)))
   \<and> algov_apply (ex_policy\<lparr>need_freq_update := True\<rparr>) 100
        (cpuinfo_max_freq (policy (ex_policy\<lparr>need_freq_update := True\<rparr>)))
       = ex_policy\<lparr>need_freq_update := True, cached_raw_freq := 0\<rparr>"
proof -
  have dl: "(2 :: u32) AND SCHED_CPUFREQ_DL ex_env \<noteq> 0"
    by (simp add: ex_env_def)
  have h: "\<not> work_in_progress ex_policy"
    "\<not> algov_up_down_rate_limit ex_policy 30000000 (cpuinfo_max_freq (policy ex_policy))"
    "next_freq ex_policy < cpuinfo_max_freq (policy ex_policy)"
    "algov_up_down_rate_limit (ex_policy\<lparr>need_freq_update := True\<rparr>) 100
        (cpuinfo_max_freq (policy (ex_policy\<lparr>need_freq_update := True\<rparr>)))"
    by (simp_all add: ex_policy_def algov_up_down_rate_limit_def)
  have gu: "algov_get_util ex_env 30000000 (cpu (ex_percpu 0)) \<noteq> None"
    "algov_get_util ex_env 100 (cpu (ex_percpu 0)) \<noteq> None"
    by (simp_all add: algov_get_util_def ex_env_def ex_percpu_def)
  have a: "algov_apply ex_policy 30000000 (cpuinfo_max_freq (policy ex_policy))
       = ex_policy\<lparr>next_freq := 2000, last_freq_update_time := 30000000,
                    work_in_progress := True, irq_work_queued := 1\<rparr>"
    by (simp add: algov_apply_def algov_deferred_update_def algov_update_next_freq_def
        algov_up_down_rate_limit_def ex_policy_def)
  note T1 = deadline_update_candidate
              [OF dl, of ex_policy 30000000 ex_cpu 0 ex_percpu 0]
  note T2 = deadline_update_candidate
              [OF dl, of ex_policy 100 ex_cpu 0 ex_percpu 0]
  note T3 = deadline_update_candidate
              [OF dl, of "ex_policy\<lparr>need_freq_update := True\<rparr>" 100 ex_cpu 0 ex_percpu 0]
  show ?thesis
    using T1 T2 T3 dl h gu a ex_gate ex_gate_closed
    by simp
qed

subsection \<open>Busy detection during the aggregation (C3)\<close>

lemma ex_loop_update:
  "algov_next_freq_shared_loop ex_env ex_policy 0 30000000 (cpus (policy ex_policy))
     (ex_percpu(0 := (ex_percpu 0)\<lparr>util := 100, max_cap := 1024, flags := 0,
                                    last_update := 30000000\<rparr>), 0, 1, 0, False)
    = Inr (ex_percpu(0 := (ex_percpu 0)\<lparr>last_update := 30000000\<rparr>,
                     1 := (ex_percpu 1)\<lparr>saved_idle_calls := 7,
                                        iowait_boost_pending := False\<rparr>),
           1000, 2000, 100, True)"
  by (auto simp: ex_percpu_def ex_env_def ex_policy_def algov_cpu_is_busy_def
      algov_iowait_boost_def Let_def fun_eq_iff)

text \<open>
  C3 says that an aggregation run for processor \<open>p\<close> leaves the saved idle-entry
  counter and the previous utilization of every other member unchanged, and the comment
  above the call of \<open>algov_cpu_is_busy_update\<close> says the same.  The loop calls
  \<open>algov_cpu_is_busy\<close> on every member that is not stale, and that function stores the
  counter it has read.  Here processor 0 updates at 30 ms with no flags; processor 1,
  updated 1 ms before, had saved the counter 5 and comes out with 7 (its previous
  utilization is untouched).
\<close>

theorem algov_update_shared_sibling_saved_idle_calls:
  "map_option (\<lambda>(sp, st'). (saved_idle_calls (st' 1), previous_util (st' 1)))
     (algov_update_shared ex_env ex_policy ex_percpu 0 30000000 0) = Some (7, 0)
   \<and> (saved_idle_calls (ex_percpu 1), previous_util (ex_percpu 1)) = (5, 0)"
proof -
  have gu: "algov_get_util ex_env 30000000 (cpu (ex_percpu 0)) = Some (100, 1024)"
    by (simp add: algov_get_util_def ex_env_def ex_percpu_def)
  have sb: "algov_set_iowait_boost ex_env ex_policy
              ((ex_percpu 0)\<lparr>util := 100, max_cap := 1024, flags := 0\<rparr>) 30000000
            = (ex_percpu 0)\<lparr>util := 100, max_cap := 1024, flags := 0\<rparr>"
    by (simp add: algov_set_iowait_boost_def ex_env_def ex_policy_def ex_percpu_def)
  have dl: "(0 :: u32) AND SCHED_CPUFREQ_DL ex_env = 0" by simp
  have m: "(2000 :: u64) \<noteq> 0" by simp
  have nfs: "map_option (\<lambda>(f, sp, st'). (saved_idle_calls (st' 1), previous_util (st' 1)))
     (algov_next_freq_shared ex_env ex_policy
        (ex_percpu(0 := (ex_percpu 0)\<lparr>util := 100, max_cap := 1024, flags := 0,
                                    last_update := 30000000\<rparr>)) 0 30000000) = Some (7, 0)"
    using m
    by (simp add: algov_next_freq_shared_def ex_loop_update get_next_freq_def Let_def
        del: algov_next_freq_shared_loop.simps)
       (simp add: ex_percpu_def)
  have before: "(saved_idle_calls (ex_percpu 1), previous_util (ex_percpu 1)) = (5, 0)"
    by (simp add: ex_percpu_def)
  have after: "map_option (\<lambda>(sp, st'). (saved_idle_calls (st' 1), previous_util (st' 1)))
     (algov_update_shared ex_env ex_policy ex_percpu 0 30000000 0) = Some (7, 0)"
    using nfs
    by (cases "algov_next_freq_shared ex_env ex_policy
        (ex_percpu(0 := (ex_percpu 0)\<lparr>util := 100, max_cap := 1024, flags := 0,
                                    last_update := 30000000\<rparr>)) 0 30000000")
       (auto simp: algov_update_shared_def gu sb ex_gate dl Let_def)
  from after before show ?thesis by (intro conjI)
qed

subsection \<open>The io-wait boost (C7)\<close>

lemma unat_push_bit_1:
  fixes b :: u32
  assumes "unat b < 2 ^ 31"
  shows "unat (push_bit 1 b) = 2 * unat b"
proof -
  have "push_bit 1 b = b * 2" by (simp add: push_bit_eq_mult)
  moreover have "unat (b * 2) = 2 * unat b"
    using assms by (simp add: unat_word_ariths)
  ultimately show ?thesis by (simp only:)
qed

lemma unat_drop_bit_1:
  fixes b :: u32
  shows "unat (drop_bit 1 b) = unat b div 2"
  by (simp add: drop_bit_eq_div unat_div)

text \<open>
  What the two functions of the booster do, case by case.  \<open>algov_set_iowait_boost\<close>
  changes nothing when the tunable \<open>iowait_boost_enable\<close> is off.  When it is on, a
  non-zero boost is first cleared to zero, and its pending mark dropped, if more than
  one tick has elapsed since the processor's last update; then, if the flags recorded
  in \<open>sg_cpu->flags\<close> carry the io-wait flag: with a boost still pending nothing ramps,
  otherwise the boost is marked pending and either doubled and clamped to
  \<open>iowait_boost_max\<close>, or, if it is zero, set to the policy's minimum frequency.
  \<open>algov_iowait_boost\<close>, with a non-zero boost, consumes a pending mark and keeps the
  boost; with no pending mark it halves the boost, and clears it to zero once the
  halved value is below the policy's minimum frequency.
\<close>

lemma iowait_boost_protocol:
  "(\<not> iowait_boost_enable (tunables sp) \<longrightarrow> algov_set_iowait_boost e sp c time = c)
   \<and> (iowait_boost_enable (tunables sp)
        \<and> iowait_boost c \<noteq> 0 \<and> sint (TICK_NSEC e) < sint (time - last_update c)
        \<and> flags c AND SCHED_CPUFREQ_IOWAIT e = 0 \<longrightarrow>
        algov_set_iowait_boost e sp c time
          = c\<lparr>iowait_boost := 0, iowait_boost_pending := False\<rparr>)
   \<and> (iowait_boost_enable (tunables sp)
        \<and> iowait_boost c \<noteq> 0 \<and> sint (TICK_NSEC e) < sint (time - last_update c)
        \<and> flags c AND SCHED_CPUFREQ_IOWAIT e \<noteq> 0 \<longrightarrow>
        algov_set_iowait_boost e sp c time
          = c\<lparr>iowait_boost := min_freq (policy sp), iowait_boost_pending := True\<rparr>)
   \<and> (iowait_boost_enable (tunables sp)
        \<and> \<not> (iowait_boost c \<noteq> 0 \<and> sint (TICK_NSEC e) < sint (time - last_update c))
        \<and> flags c AND SCHED_CPUFREQ_IOWAIT e = 0 \<longrightarrow>
        algov_set_iowait_boost e sp c time = c)
   \<and> (iowait_boost_enable (tunables sp)
        \<and> \<not> (iowait_boost c \<noteq> 0 \<and> sint (TICK_NSEC e) < sint (time - last_update c))
        \<and> flags c AND SCHED_CPUFREQ_IOWAIT e \<noteq> 0 \<and> iowait_boost_pending c \<longrightarrow>
        algov_set_iowait_boost e sp c time = c)
   \<and> (iowait_boost_enable (tunables sp)
        \<and> flags c AND SCHED_CPUFREQ_IOWAIT e \<noteq> 0 \<and> \<not> iowait_boost_pending c
        \<and> iowait_boost c = 0 \<longrightarrow>
        algov_set_iowait_boost e sp c time
          = c\<lparr>iowait_boost_pending := True, iowait_boost := min_freq (policy sp)\<rparr>)
   \<and> (iowait_boost_enable (tunables sp)
        \<and> \<not> sint (TICK_NSEC e) < sint (time - last_update c)
        \<and> flags c AND SCHED_CPUFREQ_IOWAIT e \<noteq> 0 \<and> \<not> iowait_boost_pending c
        \<and> iowait_boost c \<noteq> 0 \<longrightarrow>
        algov_set_iowait_boost e sp c time
          = c\<lparr>iowait_boost_pending := True,
               iowait_boost := (if iowait_boost_max c < push_bit 1 (iowait_boost c)
                                then iowait_boost_max c else push_bit 1 (iowait_boost c))\<rparr>
        \<and> (unat (iowait_boost c) < 2 ^ 31 \<longrightarrow>
             unat (iowait_boost (algov_set_iowait_boost e sp c time))
               = min (2 * unat (iowait_boost c)) (unat (iowait_boost_max c))))
   \<and> (iowait_boost c = 0 \<longrightarrow> algov_iowait_boost sp c u m = (c, u, m))
   \<and> (iowait_boost c \<noteq> 0 \<and> iowait_boost_pending c \<longrightarrow>
        fst (algov_iowait_boost sp c u m) = c\<lparr>iowait_boost_pending := False\<rparr>)
   \<and> (iowait_boost c \<noteq> 0 \<and> \<not> iowait_boost_pending c \<longrightarrow>
        fst (algov_iowait_boost sp c u m)
          = c\<lparr>iowait_boost := (if drop_bit 1 (iowait_boost c) < min_freq (policy sp) then 0
                               else drop_bit 1 (iowait_boost c))\<rparr>
        \<and> unat (drop_bit 1 (iowait_boost c)) = unat (iowait_boost c) div 2)"
proof -
  have dbl: "unat (iowait_boost c) < 2 ^ 31 \<Longrightarrow>
      unat (if iowait_boost_max c < push_bit 1 (iowait_boost c)
            then iowait_boost_max c else push_bit 1 (iowait_boost c))
        = min (2 * unat (iowait_boost c)) (unat (iowait_boost_max c))"
    using unat_push_bit_1 [of "iowait_boost c"]
    by (auto simp: word_less_nat_alt min_def)
  show ?thesis
    apply (intro conjI impI)
    subgoal by (simp add: algov_set_iowait_boost_def)
    subgoal by (simp add: algov_set_iowait_boost_def Let_def)
    subgoal by (simp add: algov_set_iowait_boost_def Let_def)
    subgoal by (auto simp: algov_set_iowait_boost_def Let_def)
    subgoal by (auto simp: algov_set_iowait_boost_def Let_def)
    subgoal by (auto simp: algov_set_iowait_boost_def Let_def)
    subgoal by (auto simp: algov_set_iowait_boost_def Let_def)
    subgoal using dbl by (auto simp: algov_set_iowait_boost_def Let_def)
    subgoal by (simp add: algov_iowait_boost_def)
    subgoal by (simp add: algov_iowait_boost_def Let_def)
    subgoal by (simp add: algov_iowait_boost_def Let_def)
    subgoal by (rule unat_drop_bit_1)
    done
qed

text \<open>The cases on \<open>ex_cpu\<close> (boost maximum 2000, policy minimum 300, tick 10 ms):
  nothing happens with the tunable off; a boost of 1000 that is 30 ms old is cleared,
  and re-seeded with 300 when the flag is recorded; 5 ms after the last update a
  pending boost stays, a zero boost is seeded with 300, 600 doubles to 1200 and 1200 is
  clamped to 2000; in the evaluation a pending mark is consumed, 1200 halves to 600 and
  500 halves to 250, below 300, so to zero.\<close>

lemma iowait_boost_protocol_examples:
  "\<not> iowait_boost_enable (tunables ex_policy_noboost)
   \<and> algov_set_iowait_boost ex_env ex_policy_noboost (ex_cpu\<lparr>flags := 4\<rparr>) 30000000
       = ex_cpu\<lparr>flags := 4\<rparr>
   \<and> iowait_boost_enable (tunables ex_policy)
   \<and> sint (TICK_NSEC ex_env) < sint (30000000 - last_update ex_cpu)
   \<and> algov_set_iowait_boost ex_env ex_policy (ex_cpu\<lparr>iowait_boost := 1000\<rparr>) 30000000
       = ex_cpu\<lparr>iowait_boost := 0\<rparr>
   \<and> algov_set_iowait_boost ex_env ex_policy (ex_cpu\<lparr>iowait_boost := 1000, flags := 4\<rparr>)
        30000000
       = ex_cpu\<lparr>iowait_boost := 300, flags := 4, iowait_boost_pending := True\<rparr>
   \<and> algov_set_iowait_boost ex_env ex_policy ex_cpu 30000000 = ex_cpu
   \<and> \<not> sint (TICK_NSEC ex_env) < sint (5000000 - last_update ex_cpu)
   \<and> algov_set_iowait_boost ex_env ex_policy
        (ex_cpu\<lparr>iowait_boost := 600, flags := 4, iowait_boost_pending := True\<rparr>) 5000000
       = ex_cpu\<lparr>iowait_boost := 600, flags := 4, iowait_boost_pending := True\<rparr>
   \<and> algov_set_iowait_boost ex_env ex_policy (ex_cpu\<lparr>flags := 4\<rparr>) 5000000
       = ex_cpu\<lparr>flags := 4, iowait_boost_pending := True, iowait_boost := 300\<rparr>
   \<and> algov_set_iowait_boost ex_env ex_policy (ex_cpu\<lparr>iowait_boost := 600, flags := 4\<rparr>)
        5000000
       = ex_cpu\<lparr>iowait_boost := 1200, flags := 4, iowait_boost_pending := True\<rparr>
   \<and> unat (iowait_boost
        (algov_set_iowait_boost ex_env ex_policy (ex_cpu\<lparr>iowait_boost := 1200, flags := 4\<rparr>)
           5000000)) = 2000
   \<and> algov_iowait_boost ex_policy ex_cpu 100 1024 = (ex_cpu, 100, 1024)
   \<and> fst (algov_iowait_boost ex_policy
             (ex_cpu\<lparr>iowait_boost := 600, iowait_boost_pending := True\<rparr>) 100 1024)
       = ex_cpu\<lparr>iowait_boost := 600\<rparr>
   \<and> fst (algov_iowait_boost ex_policy (ex_cpu\<lparr>iowait_boost := 1200\<rparr>) 100 1024)
       = ex_cpu\<lparr>iowait_boost := 600\<rparr>
   \<and> fst (algov_iowait_boost ex_policy (ex_cpu\<lparr>iowait_boost := 500\<rparr>) 100 1024)
       = ex_cpu\<lparr>iowait_boost := 0\<rparr>"
proof -
  have en: "\<not> iowait_boost_enable (tunables ex_policy_noboost)"
    "iowait_boost_enable (tunables ex_policy)" "min_freq (policy ex_policy) = 300"
    by (simp_all add: ex_policy_noboost_def ex_policy_def)
  have ev: "SCHED_CPUFREQ_IOWAIT ex_env = 4" "TICK_NSEC ex_env = 10000000"
    by (simp_all add: ex_env_def)
  have cv: "iowait_boost ex_cpu = 0" "\<not> iowait_boost_pending ex_cpu" "flags ex_cpu = 2"
    "last_update ex_cpu = 0" "iowait_boost_max ex_cpu = 2000"
    by (simp_all add: ex_cpu_def)
  have eqs: "ex_cpu\<lparr>iowait_boost_pending := False\<rparr> = ex_cpu"
    "ex_cpu\<lparr>iowait_boost := 0\<rparr> = ex_cpu"
    by (simp_all add: ex_cpu_def)
  note A = iowait_boost_protocol [of ex_policy_noboost ex_env "ex_cpu\<lparr>flags := 4\<rparr>" 30000000 100 1024]
  note B = iowait_boost_protocol [of ex_policy ex_env "ex_cpu\<lparr>iowait_boost := 1000\<rparr>" 30000000 100 1024]
  note C = iowait_boost_protocol [of ex_policy ex_env "ex_cpu\<lparr>iowait_boost := 1000, flags := 4\<rparr>" 30000000
                 100 1024]
  note D = iowait_boost_protocol [of ex_policy ex_env ex_cpu 30000000 100 1024]
  note E = iowait_boost_protocol [of ex_policy ex_env
                 "ex_cpu\<lparr>iowait_boost := 600, flags := 4, iowait_boost_pending := True\<rparr>"
                 5000000 100 1024]
  note F = iowait_boost_protocol [of ex_policy ex_env "ex_cpu\<lparr>flags := 4\<rparr>" 5000000 100 1024]
  note G = iowait_boost_protocol [of ex_policy ex_env "ex_cpu\<lparr>iowait_boost := 600, flags := 4\<rparr>" 5000000
                 100 1024]
  note G' = iowait_boost_protocol [of ex_policy ex_env "ex_cpu\<lparr>iowait_boost := 1200, flags := 4\<rparr>" 5000000
                 100 1024]
  note I = iowait_boost_protocol [of ex_policy ex_env "ex_cpu\<lparr>iowait_boost := 600, iowait_boost_pending := True\<rparr>"
                 5000000 100 1024]
  note J = iowait_boost_protocol [of ex_policy ex_env "ex_cpu\<lparr>iowait_boost := 1200\<rparr>" 5000000 100 1024]
  note J' = iowait_boost_protocol [of ex_policy ex_env "ex_cpu\<lparr>iowait_boost := 500\<rparr>" 5000000 100 1024]
  show ?thesis
    using A B C D E F G G' I J J'
    by (simp add: en ev cv eqs)
qed

lemma ex_loop_start:
  "algov_next_freq_shared_loop ex_env ex_policy 0 30000000 (cpus (policy ex_policy))
     (ex_percpu_start(0 := (ex_percpu_start 0)
         \<lparr>util := 100, max_cap := 1024, flags := 4, iowait_boost_pending := True,
          iowait_boost := 300, last_update := 30000000\<rparr>), 0, 1, 0, False)
    = Inr (ex_percpu_start(0 := (ex_percpu_start 0)
              \<lparr>util := 100, max_cap := 1024, flags := 4, iowait_boost := 300,
               last_update := 30000000\<rparr>),
           300, 2000, 100, True)"
  by (auto simp: ex_percpu_start_def ex_cpu_def ex_env_def ex_policy_def
      algov_cpu_is_busy_def algov_iowait_boost_def Let_def fun_eq_iff)

text \<open>
  C7 says that on an update carrying the io-wait flag, with no boost pending, the boost
  is marked pending and doubled or, when zero, set to the policy's minimum frequency.
  \<open>algov_set_iowait_boost\<close> tests the flags stored in \<open>sg_cpu->flags\<close>, not those of the
  update; \<open>algov_update_shared\<close> stores the update's flags there before the call,
  \<open>algov_update_single\<close> never does.  Here io-wait boosting is enabled and processor 0
  is as \<open>algov_start\<close> leaves it (\<open>flags = SCHED_CPUFREQ_DL\<close>, no boost, none pending).
  An update with the io-wait flag through the single-processor hook, at 100 ns (not
  evaluated) or at 30 ms (evaluated), leaves the boost at 0 and not pending.  The same
  update through the shared hook seeds the boost with the policy minimum 300.
\<close>

theorem algov_update_single_iowait_flag_ignored:
  "iowait_boost_enable (tunables ex_policy)
   \<and> (4 :: u32) AND SCHED_CPUFREQ_IOWAIT ex_env \<noteq> 0
   \<and> flags ex_cpu = SCHED_CPUFREQ_DL ex_env
   \<and> iowait_boost ex_cpu = 0 \<and> \<not> iowait_boost_pending ex_cpu
   \<and> min_freq (policy ex_policy) = 300
   \<and> map_option (\<lambda>(sp, c). (iowait_boost c, iowait_boost_pending c))
        (algov_update_single ex_env ex_policy ex_cpu 100 4 0) = Some (0, False)
   \<and> map_option (\<lambda>(sp, c). (iowait_boost c, iowait_boost_pending c))
        (algov_update_single ex_env ex_policy ex_cpu 30000000 4 0) = Some (0, False)
   \<and> ex_percpu_start 0 = ex_cpu
   \<and> map_option (\<lambda>(sp, st). iowait_boost (st 0))
        (algov_update_shared ex_env ex_policy ex_percpu_start 0 30000000 4) = Some 300"
proof -
  have h: "iowait_boost_enable (tunables ex_policy)"
    "(4 :: u32) AND SCHED_CPUFREQ_IOWAIT ex_env \<noteq> 0"
    "flags ex_cpu = SCHED_CPUFREQ_DL ex_env"
    "iowait_boost ex_cpu = 0" "\<not> iowait_boost_pending ex_cpu"
    "min_freq (policy ex_policy) = 300" "ex_percpu_start 0 = ex_cpu"
    by (simp_all add: ex_policy_def ex_env_def ex_cpu_def ex_percpu_start_def)
  have m: "\<not> work_in_progress ex_policy" "use_pelt ex_env"
    "(4 :: u32) AND SCHED_CPUFREQ_DL ex_env = 0" "cpu ex_cpu = 0"
    "next_freq ex_policy = 1000"
    by (simp_all add: ex_policy_def ex_env_def ex_cpu_def)
  have sb: "algov_set_iowait_boost ex_env ex_policy ex_cpu 100 = ex_cpu"
    by (simp add: algov_set_iowait_boost_def ex_env_def ex_policy_def ex_cpu_def)
  have early: "map_option (\<lambda>(sp, c). (iowait_boost c, iowait_boost_pending c))
        (algov_update_single ex_env ex_policy ex_cpu 100 4 0) = Some (0, False)"
    using m(1) h(4,5) by (simp add: algov_update_single_def ex_gate_closed sb)
  have b: "fst (algov_cpu_is_busy ex_env
              ((algov_set_iowait_boost ex_env ex_policy ex_cpu 30000000)
                 \<lparr>last_update := 30000000\<rparr>))"
    by (simp add: algov_cpu_is_busy_def algov_set_iowait_boost_frame ex_env_def ex_cpu_def)
  have fin: "ex_policy\<lparr>need_freq_update := False, cached_raw_freq := 29,
                       cached_raw_freq := 0\<rparr> = ex_policy"
    by (simp add: ex_policy_def)
  have single: "algov_update_single ex_env ex_policy ex_cpu 30000000 4 0
       = Some (ex_policy, ex_cpu\<lparr>last_update := 30000000, saved_idle_calls := 6\<rparr>)"
    using m b algov_apply_same [of ex_policy 30000000]
    by (simp add: algov_update_single_def Let_def split_def ex_cpu_after_busy_update
        ex_cpu_iowait_boost ex_get_next_freq ex_gate ex_get_util fin UINT_MAX_def)
  have late: "map_option (\<lambda>(sp, c). (iowait_boost c, iowait_boost_pending c))
        (algov_update_single ex_env ex_policy ex_cpu 30000000 4 0) = Some (0, False)"
    using h(4,5) by (simp add: single)
  have gu: "algov_get_util ex_env 30000000 (cpu (ex_percpu_start 0)) = Some (100, 1024)"
    by (simp add: algov_get_util_def ex_env_def ex_percpu_start_def ex_cpu_def)
  have ssb: "algov_set_iowait_boost ex_env ex_policy
               ((ex_percpu_start 0)\<lparr>util := 100, max_cap := 1024, flags := 4\<rparr>) 30000000
             = (ex_percpu_start 0)\<lparr>util := 100, max_cap := 1024, flags := 4,
                                   iowait_boost_pending := True, iowait_boost := 300\<rparr>"
    by (simp add: algov_set_iowait_boost_def ex_env_def ex_policy_def ex_percpu_start_def
        ex_cpu_def)
  have nz: "(2000 :: u64) \<noteq> 0" by simp
  have nfs: "map_option (\<lambda>(f, sp, st). iowait_boost (st 0))
     (algov_next_freq_shared ex_env ex_policy
        (ex_percpu_start(0 := (ex_percpu_start 0)
           \<lparr>util := 100, max_cap := 1024, flags := 4, iowait_boost_pending := True,
            iowait_boost := 300, last_update := 30000000\<rparr>)) 0 30000000) = Some 300"
    using nz
    by (simp add: algov_next_freq_shared_def ex_loop_start get_next_freq_def Let_def
        algov_cpu_is_busy_update_def del: algov_next_freq_shared_loop.simps)
  have shared: "map_option (\<lambda>(sp, st). iowait_boost (st 0))
        (algov_update_shared ex_env ex_policy ex_percpu_start 0 30000000 4) = Some 300"
    using nfs
    by (cases "algov_next_freq_shared ex_env ex_policy
        (ex_percpu_start(0 := (ex_percpu_start 0)
           \<lparr>util := 100, max_cap := 1024, flags := 4, iowait_boost_pending := True,
            iowait_boost := 300, last_update := 30000000\<rparr>)) 0 30000000")
       (auto simp: algov_update_shared_def gu ssb ex_gate m(3) Let_def)
  from h early late shared show ?thesis by (intro conjI)
qed

subsection \<open>The rate-limit windows (C4)\<close>

lemma sint_u64_uint:
  fixes a :: u64
  assumes "uint a < 2 ^ 63"
  shows "sint a = uint a"
proof -
  have len: "LENGTH(64) - Suc 0 = 63" by simp
  have "sint a = signed_take_bit 63 (uint a)"
    using sint_uint [of a] by (simp only: len)
  moreover have "- (2 ^ 63) \<le> uint a"
  proof -
    have "(0::int) \<le> uint a" by simp
    moreover have "- (2 ^ 63) \<le> (0::int)" by simp
    ultimately show ?thesis by (rule order_trans [rotated])
  qed
  ultimately show ?thesis
    using assms by (simp only: signed_take_bit_int_eq_self)
qed

lemma sint_eq_unat:
  fixes a :: u64
  assumes "unat a < 2 ^ 63"
  shows "sint a = int (unat a)"
proof -
  have "int (unat a) < int (2 ^ 63)"
    using assms by (simp only: of_nat_less_iff)
  then have "uint a < 2 ^ 63" by simp
  then have "sint a = uint a" by (rule sint_u64_uint)
  then show ?thesis by simp
qed

lemma sint_nonneg_unat:
  fixes d :: u64
  assumes "0 \<le> sint d"
  shows "sint d = int (unat d)"
proof -
  have "sint d < 2 ^ 63" using sint_lt [of d] by simp
  moreover have "(2::int) ^ 63 < 2 ^ 64" by simp
  ultimately have lt: "sint d < 2 ^ 64" by (rule less_trans)
  have "uint d = take_bit 64 (sint d)" using uint_sint [of d] by simp
  also have "\<dots> = sint d" using assms lt by (rule take_bit_int_eq_self)
  finally show ?thesis by simp
qed

lemma sint_diff_unat:
  fixes a b :: u64
  assumes "unat a < 2 ^ 63" "unat b < 2 ^ 63"
  shows "sint (a - b) = int (unat a) - int (unat b)"
proof -
  have len: "LENGTH(64) - 1 = 63" by simp
  have sa: "sint a = int (unat a)" and sb: "sint b = int (unat b)"
    using assms by (simp_all only: sint_eq_unat)
  have ba: "int (unat a) < 2 ^ 63" and bb: "int (unat b) < 2 ^ 63"
    using assms sint_lt [of a] sint_lt [of b] sa sb by simp_all
  have "sint (a - b) = signed_take_bit 63 (sint a - sint b)"
    using sint_word_diff [of a b] by (simp only: len)
  also have "\<dots> = sint a - sint b"
  proof (rule signed_take_bit_int_eq_self)
    show "- (2 ^ 63) \<le> sint a - sint b" using ba bb sa sb by linarith
    show "sint a - sint b < 2 ^ 63" using ba bb sa sb by linarith
  qed
  finally show ?thesis by (simp only: sa sb)
qed

lemma algov_update_next_freq_changed:
  assumes "algov_update_next_freq sp t f = (True, sp')"
  shows "last_freq_update_time sp' = t
       \<and> up_rate_delay_ns sp' = up_rate_delay_ns sp
       \<and> down_rate_delay_ns sp' = down_rate_delay_ns sp
       \<and> sint (if next_freq sp < f then up_rate_delay_ns sp else down_rate_delay_ns sp)
            \<le> sint (t - last_freq_update_time sp)"
  using assms
  by (auto simp: algov_update_next_freq_def algov_up_down_rate_limit_def Let_def
      split: if_splits)

lemma algov_update_next_freq_unchanged:
  assumes "algov_update_next_freq sp t f = (False, sp')"
  shows "last_freq_update_time sp' = last_freq_update_time sp
       \<and> up_rate_delay_ns sp' = up_rate_delay_ns sp
       \<and> down_rate_delay_ns sp' = down_rate_delay_ns sp"
  using assms
  by (auto simp: algov_update_next_freq_def Let_def split: if_splits)

lemma accepted_changes_after_last:
  assumes "\<forall>e \<in> set es. unat (fst e) < 2 ^ 63"
    and "0 \<le> sint (up_rate_delay_ns sp)" "0 \<le> sint (down_rate_delay_ns sp)"
    and "unat (last_freq_update_time sp) < 2 ^ 63"
    and "x \<in> set (accepted_changes sp es)"
  shows "unat (last_freq_update_time sp)
           + unat (if snd x then up_rate_delay_ns sp else down_rate_delay_ns sp)
         \<le> unat (fst x)"
  using assms
proof (induction es arbitrary: sp)
  case Nil
  then show ?case by simp
next
  case (Cons e es)
  obtain t f where e: "e = (t, f)" by (cases e)
  obtain changed sp' where st: "algov_update_next_freq sp t f = (changed, sp')"
    by (cases "algov_update_next_freq sp t f")
  have tb: "unat t < 2 ^ 63" and esb: "\<forall>e \<in> set es. unat (fst e) < 2 ^ 63"
    using Cons.prems(1) e by simp_all
  show ?case
  proof (cases changed)
    case True
    from st True have st': "algov_update_next_freq sp t f = (True, sp')" by simp
    note ch = algov_update_next_freq_changed [OF st']
    let ?d = "if next_freq sp < f then up_rate_delay_ns sp else down_rate_delay_ns sp"
    have dn: "0 \<le> sint ?d" using Cons.prems(2,3) by simp
    have "int (unat ?d) \<le> int (unat t) - int (unat (last_freq_update_time sp))"
      using ch sint_nonneg_unat [OF dn] sint_diff_unat [OF tb Cons.prems(4)] by simp
    then have head: "unat (last_freq_update_time sp) + unat ?d \<le> unat t" by linarith
    have x: "x = (t, next_freq sp < f) \<or> x \<in> set (accepted_changes sp' es)"
      using Cons.prems(5) e st True by simp
    then show ?thesis
    proof
      assume "x = (t, next_freq sp < f)"
      with head show ?thesis by simp
    next
      assume xin: "x \<in> set (accepted_changes sp' es)"
      have "unat (last_freq_update_time sp')
           + unat (if snd x then up_rate_delay_ns sp' else down_rate_delay_ns sp')
         \<le> unat (fst x)"
        using Cons.IH [OF esb _ _ _ xin] Cons.prems(2,3) ch tb by simp
      with ch head show ?thesis by (auto split: if_splits)
    qed
  next
    case False
    from st False have st': "algov_update_next_freq sp t f = (False, sp')" by simp
    note un = algov_update_next_freq_unchanged [OF st']
    have xin: "x \<in> set (accepted_changes sp' es)"
      using Cons.prems(5) e st False by simp
    have "unat (last_freq_update_time sp')
           + unat (if snd x then up_rate_delay_ns sp' else down_rate_delay_ns sp')
         \<le> unat (fst x)"
      using Cons.IH [OF esb _ _ _ xin] Cons.prems(2,3,4) un by simp
    with un show ?thesis by (auto split: if_splits)
  qed
qed

lemma accepted_changes_spaced:
  assumes "\<forall>e \<in> set es. unat (fst e) < 2 ^ 63"
    and "0 \<le> sint (up_rate_delay_ns sp)" "0 \<le> sint (down_rate_delay_ns sp)"
    and "up_rate_delay_ns sp = U" "down_rate_delay_ns sp = D"
  shows "sorted_wrt (\<lambda>x y. unat (fst x) + unat (if snd y then U else D) \<le> unat (fst y))
           (accepted_changes sp es)"
  using assms
proof (induction es arbitrary: sp)
  case Nil
  then show ?case by simp
next
  case (Cons e es)
  obtain t f where e: "e = (t, f)" by (cases e)
  obtain changed sp' where st: "algov_update_next_freq sp t f = (changed, sp')"
    by (cases "algov_update_next_freq sp t f")
  have tb: "unat t < 2 ^ 63" and esb: "\<forall>e \<in> set es. unat (fst e) < 2 ^ 63"
    using Cons.prems(1) e by simp_all
  show ?case
  proof (cases changed)
    case True
    from st True have st': "algov_update_next_freq sp t f = (True, sp')" by simp
    note ch = algov_update_next_freq_changed [OF st']
    have d': "0 \<le> sint (up_rate_delay_ns sp')" "0 \<le> sint (down_rate_delay_ns sp')"
      "up_rate_delay_ns sp' = U" "down_rate_delay_ns sp' = D"
      "unat (last_freq_update_time sp') < 2 ^ 63"
      using ch Cons.prems tb by simp_all
    have rest: "sorted_wrt (\<lambda>x y. unat (fst x) + unat (if snd y then U else D) \<le> unat (fst y))
           (accepted_changes sp' es)"
      by (rule Cons.IH [OF esb d'(1-4)])
    have "unat t + unat (if snd y then U else D) \<le> unat (fst y)"
      if "y \<in> set (accepted_changes sp' es)" for y
      using accepted_changes_after_last [OF esb d'(1,2,5) that] ch d'(3,4)
      by (auto split: if_splits)
    with rest show ?thesis using e st True by simp
  next
    case False
    from st False have st': "algov_update_next_freq sp t f = (False, sp')" by simp
    note un = algov_update_next_freq_unchanged [OF st']
    have "sorted_wrt (\<lambda>x y. unat (fst x) + unat (if snd y then U else D) \<le> unat (fst y))
           (accepted_changes sp' es)"
      using Cons.IH [OF esb] Cons.prems un by simp
    then show ?thesis using e st False by simp
  qed
qed

lemma ex_raw_zero:
  "get_next_freq_raw ex_env (ex_policy\<lparr>last_freq_update_time := 30000000\<rparr>) 0 1024 False = 0"
  by (simp add: get_next_freq_raw_def ex_env_def ex_policy_def)

text \<open>
  C4 as the specification states it: a rejection resets the cached raw frequency to
  zero so that the next evaluation is not short-circuited.  It is short-circuited when
  its own raw frequency is zero.  After a change at 30 ms the upward candidate 2500 at
  30.1 ms is rejected and the cache reset to 0; the next evaluation, of utilization 0
  with no forced refresh, computes the raw frequency 0, finds it in the cache and
  returns \<open>next_freq = 1000\<close> with the policy untouched, where the driver would
  resolve the raw frequency 0 to 300.
\<close>

theorem rate_limit_reset_counterexample:
  "next_freq (ex_policy\<lparr>last_freq_update_time := 30000000\<rparr>) < 2500
   \<and> sint (30100000 - last_freq_update_time (ex_policy\<lparr>last_freq_update_time := 30000000\<rparr>))
       < sint (up_rate_delay_ns (ex_policy\<lparr>last_freq_update_time := 30000000\<rparr>))
   \<and> algov_update_next_freq (ex_policy\<lparr>last_freq_update_time := 30000000\<rparr>) 30100000 2500
       = (False, ex_policy\<lparr>last_freq_update_time := 30000000, cached_raw_freq := 0\<rparr>)
   \<and> \<not> need_freq_update (ex_policy\<lparr>last_freq_update_time := 30000000, cached_raw_freq := 0\<rparr>)
   \<and> get_next_freq ex_env
         (ex_policy\<lparr>last_freq_update_time := 30000000, cached_raw_freq := 0\<rparr>) 0 1024 False
       = Some (1000, ex_policy\<lparr>last_freq_update_time := 30000000, cached_raw_freq := 0\<rparr>)
   \<and> cpufreq_driver_resolve_freq ex_env
         (policy (ex_policy\<lparr>last_freq_update_time := 30000000, cached_raw_freq := 0\<rparr>)) 0
       = 300"
proof -
  let ?sp = "ex_policy\<lparr>last_freq_update_time := 30000000\<rparr>"
  have a: "next_freq ?sp < 2500"
    "sint (30100000 - last_freq_update_time ?sp) < sint (up_rate_delay_ns ?sp)"
    "\<not> need_freq_update (?sp\<lparr>cached_raw_freq := 0\<rparr>)"
    "cpufreq_driver_resolve_freq ex_env (policy (?sp\<lparr>cached_raw_freq := 0\<rparr>)) 0 = 300"
    by (simp_all add: ex_policy_def ex_env_def)
  have r: "algov_update_next_freq ?sp 30100000 2500 = (False, ?sp\<lparr>cached_raw_freq := 0\<rparr>)"
    by (simp add: algov_update_next_freq_def algov_up_down_rate_limit_def ex_policy_def)
  have raw: "get_next_freq_raw ex_env (?sp\<lparr>cached_raw_freq := 0\<rparr>) 0 1024 False = 0"
    using get_next_freq_raw_cong [of "?sp\<lparr>cached_raw_freq := 0\<rparr>" ?sp ex_env 0 1024 False]
    by (simp add: ex_raw_zero)
  have g: "get_next_freq ex_env (?sp\<lparr>cached_raw_freq := 0\<rparr>) 0 1024 False
       = Some (1000, ?sp\<lparr>cached_raw_freq := 0\<rparr>)"
    by (simp add: get_next_freq_def raw) (simp add: ex_policy_def)
  from a r g show ?thesis by (intro conjI)
qed

text \<open>
  C4, amended: a candidate above \<open>next_freq\<close> presented at time \<open>t\<close> with
  \<open>t - last_freq_update_time < up_rate_delay_ns\<close> (a signed comparison) is rejected:
  nothing changes but the cached raw frequency, which is reset to zero; likewise for a
  candidate below \<open>next_freq\<close> and \<open>down_rate_delay_ns\<close>.  So every accepted change
  comes no sooner than the delay of its direction after the time of the last change,
  which it replaces by its own time.  After the reset an evaluation with a non-zero
  raw frequency is not short-circuited: \<open>get_next_freq\<close> resolves and caches the raw
  frequency; an evaluation whose raw frequency is zero, with no forced refresh, still
  finds its value in the cache and returns \<open>next_freq\<close>.  For every sequence of
  rate-limiter evaluations, whenever two changes are accepted, the later one comes no
  sooner after the earlier one than the delay of its own direction: two upward changes
  are never both accepted within a window shorter than \<open>up_rate_delay_ns\<close>, two
  downward changes never within \<open>down_rate_delay_ns\<close>.  The sequence property is
  stated for timestamps below \<open>2^63\<close> ns and non-negative delays, where the signed
  64-bit difference is the difference of the times.
\<close>

theorem rate_limit_windows:
  "(next_freq sp < f \<and> sint (t - last_freq_update_time sp) < sint (up_rate_delay_ns sp) \<longrightarrow>
      algov_update_next_freq sp t f = (False, sp\<lparr>cached_raw_freq := 0\<rparr>))
   \<and> (f < next_freq sp
        \<and> sint (t - last_freq_update_time sp) < sint (down_rate_delay_ns sp) \<longrightarrow>
      algov_update_next_freq sp t f = (False, sp\<lparr>cached_raw_freq := 0\<rparr>))
   \<and> (algov_update_next_freq sp t f = (True, sp') \<longrightarrow>
      last_freq_update_time sp' = t
      \<and> sint (if next_freq sp < f then up_rate_delay_ns sp else down_rate_delay_ns sp)
            \<le> sint (t - last_freq_update_time sp))
   \<and> (m \<noteq> 0 \<and> get_next_freq_raw e sp u m busy \<noteq> 0 \<longrightarrow>
      get_next_freq e (sp\<lparr>cached_raw_freq := 0\<rparr>) u m busy
        = Some (cpufreq_driver_resolve_freq e (policy sp) (get_next_freq_raw e sp u m busy),
                sp\<lparr>need_freq_update := False,
                   cached_raw_freq := get_next_freq_raw e sp u m busy\<rparr>))
   \<and> ((\<forall>e \<in> set es. unat (fst e) < 2 ^ 63)
        \<and> 0 \<le> sint (up_rate_delay_ns sp) \<and> 0 \<le> sint (down_rate_delay_ns sp) \<longrightarrow>
      (\<forall>i j. i < j \<and> j < length (accepted_changes sp es) \<longrightarrow>
         unat (fst (accepted_changes sp es ! i))
           + unat (if snd (accepted_changes sp es ! j) then up_rate_delay_ns sp
                   else down_rate_delay_ns sp)
         \<le> unat (fst (accepted_changes sp es ! j))))
   \<and> (m \<noteq> 0 \<and> get_next_freq_raw e sp u m busy = 0 \<and> \<not> need_freq_update sp \<longrightarrow>
      get_next_freq e (sp\<lparr>cached_raw_freq := 0\<rparr>) u m busy
        = Some (next_freq sp, sp\<lparr>cached_raw_freq := 0\<rparr>))"
proof (intro conjI impI allI)
  assume "m \<noteq> 0 \<and> get_next_freq_raw e sp u m busy = 0 \<and> \<not> need_freq_update sp"
  moreover have "get_next_freq_raw e (sp\<lparr>cached_raw_freq := 0\<rparr>) u m busy
      = get_next_freq_raw e sp u m busy"
    by (rule get_next_freq_raw_cong) simp
  ultimately show "get_next_freq e (sp\<lparr>cached_raw_freq := 0\<rparr>) u m busy
        = Some (next_freq sp, sp\<lparr>cached_raw_freq := 0\<rparr>)"
    by (simp add: get_next_freq_def Let_def)
next
  fix i j
  assume h: "(\<forall>e \<in> set es. unat (fst e) < 2 ^ 63)
        \<and> 0 \<le> sint (up_rate_delay_ns sp) \<and> 0 \<le> sint (down_rate_delay_ns sp)"
    and ij: "i < j \<and> j < length (accepted_changes sp es)"
  have "sorted_wrt (\<lambda>x y. unat (fst x)
            + unat (if snd y then up_rate_delay_ns sp else down_rate_delay_ns sp)
          \<le> unat (fst y)) (accepted_changes sp es)"
    using h by (intro accepted_changes_spaced) simp_all
  from sorted_wrt_nth_less [OF this, of i j] ij
  show "unat (fst (accepted_changes sp es ! i))
           + unat (if snd (accepted_changes sp es ! j) then up_rate_delay_ns sp
                   else down_rate_delay_ns sp)
         \<le> unat (fst (accepted_changes sp es ! j))"
    by simp
next
  assume "m \<noteq> 0 \<and> get_next_freq_raw e sp u m busy \<noteq> 0"
  moreover have "get_next_freq_raw e (sp\<lparr>cached_raw_freq := 0\<rparr>) u m busy
      = get_next_freq_raw e sp u m busy"
    by (rule get_next_freq_raw_cong) simp
  ultimately show "get_next_freq e (sp\<lparr>cached_raw_freq := 0\<rparr>) u m busy
        = Some (cpufreq_driver_resolve_freq e (policy sp) (get_next_freq_raw e sp u m busy),
                sp\<lparr>need_freq_update := False,
                   cached_raw_freq := get_next_freq_raw e sp u m busy\<rparr>)"
    by (simp add: get_next_freq_def Let_def)
next
  assume a: "algov_update_next_freq sp t f = (True, sp')"
  note ch = algov_update_next_freq_changed [OF a]
  from ch show "last_freq_update_time sp' = t" by blast
  from ch show "sint (if next_freq sp < f then up_rate_delay_ns sp
                      else down_rate_delay_ns sp)
                  \<le> sint (t - last_freq_update_time sp)" by blast
qed (auto simp: algov_update_next_freq_def algov_up_down_rate_limit_def)

lemma ex_accepted_changes:
  "accepted_changes ex_policy ex_candidates
   = [(30000000, True), (31000000, True), (60000000, False)]"
  by (simp add: ex_candidates_def ex_policy_def algov_update_next_freq_def
      algov_up_down_rate_limit_def)

text \<open>The amended C4 at \<open>ex_policy\<close>: after a change at 30 ms, the upward candidate 2500
  at 30.1 ms and the downward candidate 500 at 40 ms are rejected with the cache reset;
  the next evaluation of utilization 100 of 1024 is computed afresh, the one of
  utilization 0 returns 1000 from the cache; of the five candidates of
  \<open>ex_candidates\<close> three are accepted, the two upward ones 1 ms apart (at least 0.5 ms)
  and the downward one 29 ms after them (at least 20 ms).\<close>

theorem rate_limit_windows_witness:
  "next_freq (ex_policy\<lparr>last_freq_update_time := 30000000\<rparr>) < 2500
   \<and> sint (30100000 - last_freq_update_time (ex_policy\<lparr>last_freq_update_time := 30000000\<rparr>))
       < sint (up_rate_delay_ns (ex_policy\<lparr>last_freq_update_time := 30000000\<rparr>))
   \<and> algov_update_next_freq (ex_policy\<lparr>last_freq_update_time := 30000000\<rparr>) 30100000 2500
       = (False, ex_policy\<lparr>last_freq_update_time := 30000000, cached_raw_freq := 0\<rparr>)
   \<and> 500 < next_freq (ex_policy\<lparr>last_freq_update_time := 30000000\<rparr>)
   \<and> sint (40000000 - last_freq_update_time (ex_policy\<lparr>last_freq_update_time := 30000000\<rparr>))
       < sint (down_rate_delay_ns (ex_policy\<lparr>last_freq_update_time := 30000000\<rparr>))
   \<and> algov_update_next_freq (ex_policy\<lparr>last_freq_update_time := 30000000\<rparr>) 40000000 500
       = (False, ex_policy\<lparr>last_freq_update_time := 30000000, cached_raw_freq := 0\<rparr>)
   \<and> algov_update_next_freq (ex_policy\<lparr>last_freq_update_time := 30000000\<rparr>) 31000000 2500
       = (True, ex_policy\<lparr>next_freq := 2500, last_freq_update_time := 31000000\<rparr>)
   \<and> sint (up_rate_delay_ns (ex_policy\<lparr>last_freq_update_time := 30000000\<rparr>))
       \<le> sint (31000000
                  - last_freq_update_time (ex_policy\<lparr>last_freq_update_time := 30000000\<rparr>))
   \<and> (1024 :: u64) \<noteq> 0
   \<and> get_next_freq_raw ex_env (ex_policy\<lparr>last_freq_update_time := 30000000\<rparr>) 100 1024 False
       \<noteq> 0
   \<and> get_next_freq ex_env
        (ex_policy\<lparr>last_freq_update_time := 30000000, cached_raw_freq := 0\<rparr>) 100 1024 False
       = Some (300, ex_policy\<lparr>last_freq_update_time := 30000000, need_freq_update := False,
                              cached_raw_freq := 29\<rparr>)
   \<and> get_next_freq_raw ex_env (ex_policy\<lparr>last_freq_update_time := 30000000\<rparr>) 0 1024 False
       = 0
   \<and> \<not> need_freq_update (ex_policy\<lparr>last_freq_update_time := 30000000\<rparr>)
   \<and> get_next_freq ex_env
        (ex_policy\<lparr>last_freq_update_time := 30000000, cached_raw_freq := 0\<rparr>) 0 1024 False
       = Some (1000, ex_policy\<lparr>last_freq_update_time := 30000000, cached_raw_freq := 0\<rparr>)
   \<and> list_all (\<lambda>e. unat (fst e) < 2 ^ 63) ex_candidates
   \<and> 0 \<le> sint (up_rate_delay_ns ex_policy) \<and> 0 \<le> sint (down_rate_delay_ns ex_policy)
   \<and> accepted_changes ex_policy ex_candidates
       = [(30000000, True), (31000000, True), (60000000, False)]
   \<and> unat (30000000 :: u64) + unat (up_rate_delay_ns ex_policy) \<le> unat (31000000 :: u64)
   \<and> unat (31000000 :: u64) + unat (down_rate_delay_ns ex_policy) \<le> unat (60000000 :: u64)"
proof -
  let ?sp = "ex_policy\<lparr>last_freq_update_time := 30000000\<rparr>"
  have up: "next_freq ?sp < 2500
      \<and> sint (30100000 - last_freq_update_time ?sp) < sint (up_rate_delay_ns ?sp)"
    and down: "500 < next_freq ?sp
      \<and> sint (40000000 - last_freq_update_time ?sp) < sint (down_rate_delay_ns ?sp)"
    by (simp_all add: ex_policy_def)
  have acc: "algov_update_next_freq ?sp 31000000 2500
      = (True, ex_policy\<lparr>next_freq := 2500, last_freq_update_time := 31000000\<rparr>)"
    by (simp add: algov_update_next_freq_def algov_up_down_rate_limit_def ex_policy_def)
  have upw: "next_freq ?sp < 2500" by (simp add: ex_policy_def)
  have zero: "(1024 :: u64) \<noteq> 0 \<and> get_next_freq_raw ex_env ?sp 0 1024 False = 0
      \<and> \<not> need_freq_update ?sp"
    by (simp add: ex_raw_zero) (simp add: ex_policy_def)
  have rawv: "get_next_freq_raw ex_env ?sp 100 1024 False = 29"
    using get_next_freq_raw_cong [of ?sp ex_policy ex_env 100 1024 False]
    by (simp add: ex_raw)
  then have raw: "(1024 :: u64) \<noteq> 0 \<and> get_next_freq_raw ex_env ?sp 100 1024 False \<noteq> 0"
    by simp
  have res: "cpufreq_driver_resolve_freq ex_env (policy ?sp) 29 = 300"
    by (simp add: ex_env_def ex_policy_def)
  have la: "list_all (\<lambda>e. unat (fst e) < 2 ^ 63) ex_candidates"
    by (simp add: ex_candidates_def)
  have dl: "0 \<le> sint (up_rate_delay_ns ex_policy)" "0 \<le> sint (down_rate_delay_ns ex_policy)"
    by (simp_all add: ex_policy_def)
  have pre: "(\<forall>e \<in> set ex_candidates. unat (fst e) < 2 ^ 63)
      \<and> 0 \<le> sint (up_rate_delay_ns ex_policy) \<and> 0 \<le> sint (down_rate_delay_ns ex_policy)"
    using la dl by (simp only: list_all_iff simp_thms)
  note T1 = rate_limit_windows
              [where sp = ?sp and f = 2500 and t = 30100000,
               THEN conjunct1, rule_format, OF up]
  note T2 = rate_limit_windows
              [where sp = ?sp and f = 500 and t = 40000000,
               THEN conjunct2, THEN conjunct1, rule_format, OF down]
  note T3 = rate_limit_windows
              [where sp = ex_policy and es = ex_candidates,
               THEN conjunct2, THEN conjunct2, THEN conjunct2, THEN conjunct2,
               THEN conjunct1, rule_format, OF pre]
  note T6 = rate_limit_windows
              [where sp = ?sp and e = ex_env and u = 0 and m = 1024 and busy = False,
               THEN conjunct2, THEN conjunct2, THEN conjunct2, THEN conjunct2,
               THEN conjunct2, rule_format, OF zero]
  note T4 = rate_limit_windows
              [where sp = ?sp and e = ex_env and u = 100 and m = 1024 and busy = False,
               THEN conjunct2, THEN conjunct2, THEN conjunct2, THEN conjunct1,
               rule_format, OF raw]
  note T5 = rate_limit_windows
              [where sp = ?sp and f = 2500 and t = 31000000,
               THEN conjunct2, THEN conjunct2, THEN conjunct1, rule_format, OF acc]
  have ij: "(0::nat) < 1 \<and> 1 < length (accepted_changes ex_policy ex_candidates)"
    "(1::nat) < 2 \<and> 2 < length (accepted_changes ex_policy ex_candidates)"
    by (simp_all add: ex_accepted_changes)
  from T3 [OF ij(1)] have s1:
    "unat (30000000 :: u64) + unat (up_rate_delay_ns ex_policy) \<le> unat (31000000 :: u64)"
    by (simp add: ex_accepted_changes)
  from T3 [OF ij(2)] have s2:
    "unat (31000000 :: u64) + unat (down_rate_delay_ns ex_policy) \<le> unat (60000000 :: u64)"
    by (simp add: ex_accepted_changes)
  from T4 rawv res have s4: "get_next_freq ex_env
        (ex_policy\<lparr>last_freq_update_time := 30000000, cached_raw_freq := 0\<rparr>) 100 1024 False
       = Some (300, ex_policy\<lparr>last_freq_update_time := 30000000, need_freq_update := False,
                              cached_raw_freq := 29\<rparr>)"
    by simp
  from T5 upw have s5: "sint (up_rate_delay_ns ?sp)
      \<le> sint (31000000 - last_freq_update_time ?sp)"
    by simp
  from T6 have s6: "get_next_freq ex_env
        (ex_policy\<lparr>last_freq_update_time := 30000000, cached_raw_freq := 0\<rparr>) 0 1024 False
       = Some (1000, ex_policy\<lparr>last_freq_update_time := 30000000, cached_raw_freq := 0\<rparr>)"
    by (simp add: ex_policy_def)
  from up down la dl T1 T2 s1 s2 s4 s5 s6 acc raw zero ex_accepted_changes show ?thesis
    by (intro conjI) simp_all
qed

subsection \<open>The aggregation over a policy (C6)\<close>

lemma ex_loop:
  "algov_next_freq_shared_loop ex_env ex_policy 0 30000000 (cpus (policy ex_policy))
     (ex_percpu, 0, 1, 0, False)
    = Inr (ex_percpu(1 := (ex_percpu 1)\<lparr>saved_idle_calls := 7,
                                        iowait_boost_pending := False\<rparr>),
           1000, 2000, 100, True)"
  by (auto simp: ex_percpu_def ex_env_def ex_policy_def algov_cpu_is_busy_def
      algov_iowait_boost_def Let_def fun_eq_iff)

lemma ex_aggregate_spec:
  "aggregate_spec ex_env ex_policy ex_percpu 30000000 (cpus (policy ex_policy))
     = (100, 1024, True)"
  by (simp add: aggregate_spec_def fresh_members_def member_stale_def ex_percpu_def
      ex_env_def ex_policy_def algov_cpu_is_busy_def algov_iowait_boost_def Let_def)

text \<open>
  C6 as the specification states it: the pair is that of the member with the greatest
  ratio, and the io-wait boost applied to it is that member's.  The loop applies the
  boost of every member it scans to the running pair, selected or not.  Processor 0
  (utilization 100 of 1024, no boost) has the greatest ratio and stays selected against
  processor 1 (50 of 1024); then the pending boost of processor 1 (1000 of 2000)
  replaces the pair.  The loop ends with (1000, 2000); the specification's aggregation
  gives (100, 1024).
\<close>

theorem aggregate_spec_counterexample:
  "(case algov_next_freq_shared_loop ex_env ex_policy 0 30000000 (cpus (policy ex_policy))
           (ex_percpu, 0, 1, 0, False) of
      Inl st' \<Rightarrow> None
    | Inr (st', u, m, sg_cpu_util, busy) \<Rightarrow> Some (u, m, busy)) = Some (1000, 2000, True)
   \<and> aggregate_spec ex_env ex_policy ex_percpu 30000000 (cpus (policy ex_policy))
       = (100, 1024, True)"
  by (simp add: ex_loop ex_aggregate_spec del: algov_next_freq_shared_loop.simps)

text \<open>Arithmetic of the cross-multiplied comparison.\<close>

lemma ratio_le_trans:
  fixes a b c d e f :: nat
  assumes "a * d \<le> c * b" "c * f \<le> e * d" "0 < d"
  shows "a * f \<le> e * b"
proof -
  have "a * f * d = a * d * f" by (simp add: ac_simps)
  also have "\<dots> \<le> c * b * f" using assms(1) by (rule mult_le_mono1)
  also have "\<dots> = c * f * b" by (simp add: ac_simps)
  also have "\<dots> \<le> e * d * b" using assms(2) by (rule mult_le_mono1)
  also have "\<dots> = e * b * d" by (simp add: ac_simps)
  finally have "a * f * d \<le> e * b * d" .
  with assms(3) show ?thesis by simp
qed

lemma ratio_le_less_trans:
  fixes a b c d e f :: nat
  assumes "a * d \<le> c * b" "c * f < e * d" "0 < d" "0 < b"
  shows "a * f < e * b"
proof -
  have "a * f * d = a * d * f" by (simp add: ac_simps)
  also have "\<dots> \<le> c * b * f" using assms(1) by (rule mult_le_mono1)
  also have "\<dots> = c * f * b" by (simp add: ac_simps)
  also have "\<dots> < e * d * b" using assms(2,4) by simp
  also have "\<dots> = e * b * d" by (simp add: ac_simps)
  finally have "a * f * d < e * b * d" .
  then show ?thesis by simp
qed

lemma unat_mult_u64:
  fixes a b :: u64
  assumes "unat a < 2 ^ 32" "unat b < 2 ^ 32"
  shows "unat (a * b) = unat a * unat b"
proof -
  have "unat a * unat b < 2 ^ 32 * 2 ^ 32"
    using assms by (intro mult_strict_mono) simp_all
  then have "unat a * unat b < 2 ^ LENGTH(64)" by simp
  then show ?thesis by (simp only: unat_mult_lem)
qed

lemma ratio_less_u64:
  fixes ju jm u m :: u64
  assumes "unat ju < 2 ^ 32" "unat jm < 2 ^ 32" "unat u < 2 ^ 32" "unat m < 2 ^ 32"
  shows "jm * u < ju * m \<longleftrightarrow> unat jm * unat u < unat ju * unat m"
  using assms by (simp only: word_less_nat_alt unat_mult_u64)

lemma ratio_le_refl: "ratio_le p p"
  by (simp add: ratio_le_def)

lemma ratio_le_transitive:
  assumes "ratio_le p q" "ratio_le q r" "ratio_bounded q"
  shows "ratio_le p r"
  using assms ratio_le_trans [of "unat (fst p)" "unat (snd q)" "unat (fst q)" "unat (snd p)"
      "unat (snd r)" "unat (fst r)"]
  by (simp add: ratio_le_def ratio_bounded_def)

lemma ratio_le_less_transitive:
  assumes "ratio_le p q" "ratio_less q r" "ratio_bounded q" "ratio_bounded p"
  shows "ratio_less p r"
  using assms ratio_le_less_trans [of "unat (fst p)" "unat (snd q)" "unat (fst q)"
      "unat (snd p)" "unat (snd r)" "unat (fst r)"]
  by (simp add: ratio_le_def ratio_less_def ratio_bounded_def)

lemma max_ratio_scan_step:
  assumes "ratio_bounded p" "ratio_bounded acc"
  shows "max_ratio_scan (p # ps) acc
           = max_ratio_scan ps (if ratio_less acc p then p else acc)"
proof -
  obtain ju jm where p: "p = (ju, jm)" by (cases p)
  obtain u m where acc: "acc = (u, m)" by (cases acc)
  have "jm * u < ju * m \<longleftrightarrow> unat jm * unat u < unat ju * unat m"
    using assms p acc by (intro ratio_less_u64) (simp_all add: ratio_bounded_def)
  then show ?thesis
    by (simp add: p acc ratio_less_def mult.commute)
qed

lemma max_ratio_scan_props:
  assumes "\<forall>p \<in> set ps. ratio_bounded p" "ratio_bounded acc"
  shows "ratio_bounded (max_ratio_scan ps acc)
       \<and> ratio_le acc (max_ratio_scan ps acc)
       \<and> (\<forall>p \<in> set ps. ratio_le p (max_ratio_scan ps acc))
       \<and> (max_ratio_scan ps acc = acc
            \<or> (\<exists>i < length ps. max_ratio_scan ps acc = ps ! i
                  \<and> (\<forall>k < i. ratio_less (ps ! k) (ps ! i))
                  \<and> ratio_less acc (ps ! i)))"
  using assms
proof (induction ps arbitrary: acc)
  case Nil
  then show ?case by (simp add: ratio_le_refl)
next
  case (Cons p ps)
  let ?acc1 = "if ratio_less acc p then p else acc"
  let ?R = "max_ratio_scan ps ?acc1"
  have pb: "ratio_bounded p" and psb: "\<forall>p \<in> set ps. ratio_bounded p"
    using Cons.prems(1) by simp_all
  have step: "max_ratio_scan (p # ps) acc = ?R"
    by (rule max_ratio_scan_step [OF pb Cons.prems(2)])
  have b1: "ratio_bounded ?acc1" using pb Cons.prems(2) by simp
  have le_acc: "ratio_le acc ?acc1"
    by (auto simp: ratio_le_def ratio_less_def)
  have le_p: "ratio_le p ?acc1"
    by (auto simp: ratio_le_def ratio_less_def)
  note IH = Cons.IH [OF psb b1]
  have R1: "ratio_bounded ?R" and R2: "ratio_le ?acc1 ?R"
    and R3: "\<forall>q \<in> set ps. ratio_le q ?R"
    and R4: "?R = ?acc1
            \<or> (\<exists>i < length ps. ?R = ps ! i
                  \<and> (\<forall>k < i. ratio_less (ps ! k) (ps ! i))
                  \<and> ratio_less ?acc1 (ps ! i))"
    using IH by blast+
  have G2: "ratio_le acc ?R"
    by (rule ratio_le_transitive [OF le_acc R2 b1])
  have G3: "\<forall>q \<in> set (p # ps). ratio_le q ?R"
    using R3 ratio_le_transitive [OF le_p R2 b1] by simp
  have G4: "?R = acc
            \<or> (\<exists>i < length (p # ps). ?R = (p # ps) ! i
                  \<and> (\<forall>k < i. ratio_less ((p # ps) ! k) ((p # ps) ! i))
                  \<and> ratio_less acc ((p # ps) ! i))"
    using R4
  proof
    assume eq: "?R = ?acc1"
    show ?thesis
    proof (cases "ratio_less acc p")
      case True
      with eq have "?R = (p # ps) ! 0 \<and> (\<forall>k < 0. ratio_less ((p # ps) ! k) ((p # ps) ! 0))
          \<and> ratio_less acc ((p # ps) ! 0)" by simp
      then show ?thesis by blast
    next
      case False
      with eq show ?thesis by simp
    qed
  next
    assume "\<exists>i < length ps. ?R = ps ! i
                  \<and> (\<forall>k < i. ratio_less (ps ! k) (ps ! i))
                  \<and> ratio_less ?acc1 (ps ! i)"
    then obtain i where i: "i < length ps" "?R = ps ! i"
      "\<forall>k < i. ratio_less (ps ! k) (ps ! i)" "ratio_less ?acc1 (ps ! i)"
      by blast
    have p_less: "ratio_less p (ps ! i)"
      by (rule ratio_le_less_transitive [OF le_p i(4) b1 pb])
    have acc_less: "ratio_less acc (ps ! i)"
      by (rule ratio_le_less_transitive [OF le_acc i(4) b1 Cons.prems(2)])
    have "\<forall>k < Suc i. ratio_less ((p # ps) ! k) ((p # ps) ! Suc i)"
      using i(3) p_less by (auto simp: nth_Cons split: nat.split)
    with i acc_less have "Suc i < length (p # ps) \<and> ?R = (p # ps) ! Suc i
        \<and> (\<forall>k < Suc i. ratio_less ((p # ps) ! k) ((p # ps) ! Suc i))
        \<and> ratio_less acc ((p # ps) ! Suc i)"
      by simp
    then show ?thesis by blast
  qed
  show ?case
    unfolding step using R1 G2 G3 G4 by blast
qed

text \<open>The loop, one member at a time.\<close>

lemma algov_next_freq_shared_loop_stale:
  assumes "st j = c" "member_stale e time c"
  shows "algov_next_freq_shared_loop e sp p time (j # js) (st, u, m, su, b)
    = algov_next_freq_shared_loop e sp p time js
        (st(j := c\<lparr>iowait_boost := 0, iowait_boost_pending := False\<rparr>), u, m, su, b)"
  using assms by (simp add: member_stale_def Let_def)

lemma algov_next_freq_shared_loop_fresh:
  assumes "st j = c" "\<not> member_stale e time c" "flags c AND SCHED_CPUFREQ_DL e = 0"
  shows "algov_next_freq_shared_loop e sp p time (j # js) (st, u, m, su, b)
    = algov_next_freq_shared_loop e sp p time js
        (st(j := fst (algov_iowait_boost sp (snd (algov_cpu_is_busy e c))
                        (fst (if max_cap c * u < util c * m
                              then (util c, max_cap c) else (u, m)))
                        (snd (if max_cap c * u < util c * m
                              then (util c, max_cap c) else (u, m))))),
         fst (snd (algov_iowait_boost sp (snd (algov_cpu_is_busy e c))
                        (fst (if max_cap c * u < util c * m
                              then (util c, max_cap c) else (u, m)))
                        (snd (if max_cap c * u < util c * m
                              then (util c, max_cap c) else (u, m))))),
         snd (snd (algov_iowait_boost sp (snd (algov_cpu_is_busy e c))
                        (fst (if max_cap c * u < util c * m
                              then (util c, max_cap c) else (u, m)))
                        (snd (if max_cap c * u < util c * m
                              then (util c, max_cap c) else (u, m))))),
         (if j = p then util c else su),
         (b \<or> tick_nohz_get_idle_calls e = saved_idle_calls c))"
  using assms by (simp add: member_stale_def Let_def split_def algov_cpu_is_busy_def)

lemma algov_iowait_boost_none:
  "iowait_boost c = 0 \<Longrightarrow> algov_iowait_boost sp c u m = (c, u, m)"
  by (simp add: algov_iowait_boost_def)

lemma algov_next_freq_shared_loop_result:
  assumes "distinct js"
    and "\<forall>k \<in> set js. st k = st0 k"
    and "\<forall>j \<in> set (fresh_members e time st0 js). flags (st0 j) AND SCHED_CPUFREQ_DL e = 0"
  shows "\<exists>st' u' m'.
           algov_next_freq_shared_loop e sp p time js (st, u, m, su, b)
             = Inr (st', u', m',
                    (if p \<in> set (fresh_members e time st0 js) then util (st0 p) else su),
                    (b \<or> list_ex (\<lambda>j. tick_nohz_get_idle_calls e = saved_idle_calls (st0 j))
                            (fresh_members e time st0 js)))
           \<and> (list_all (\<lambda>j. iowait_boost (st0 j) = 0) (fresh_members e time st0 js) \<longrightarrow>
                (u', m') = max_ratio_scan
                             (map (\<lambda>j. (util (st0 j), max_cap (st0 j)))
                                (fresh_members e time st0 js)) (u, m))"
  using assms
proof (induction js arbitrary: st u m su b)
  case Nil
  then show ?case by (simp add: fresh_members_def)
next
  case (Cons j js)
  have dj: "distinct js" and jn: "j \<notin> set js" using Cons.prems(1) by simp_all
  have stj: "st j = st0 j" using Cons.prems(2) by simp
  show ?case
  proof (cases "member_stale e time (st0 j)")
    case True
    let ?st1 = "st(j := (st0 j)\<lparr>iowait_boost := 0, iowait_boost_pending := False\<rparr>)"
    have fm: "fresh_members e time st0 (j # js) = fresh_members e time st0 js"
      using True by (simp add: fresh_members_def)
    have eq1: "\<forall>k \<in> set js. ?st1 k = st0 k" using Cons.prems(2) jn by auto
    have dl1: "\<forall>j \<in> set (fresh_members e time st0 js).
                 flags (st0 j) AND SCHED_CPUFREQ_DL e = 0"
      using Cons.prems(3) fm by simp
    have step: "algov_next_freq_shared_loop e sp p time (j # js) (st, u, m, su, b)
        = algov_next_freq_shared_loop e sp p time js (?st1, u, m, su, b)"
      by (rule algov_next_freq_shared_loop_stale [where st = st and j = j and c = "st0 j", OF stj True])
    show ?thesis
      unfolding step fm by (rule Cons.IH [OF dj eq1 dl1])
  next
    case False
    have fm: "fresh_members e time st0 (j # js) = j # fresh_members e time st0 js"
      using False by (simp add: fresh_members_def)
    have ndl: "flags (st0 j) AND SCHED_CPUFREQ_DL e = 0"
      using Cons.prems(3) fm by simp
    let ?cmp = "if max_cap (st0 j) * u < util (st0 j) * m
                then (util (st0 j), max_cap (st0 j)) else (u, m)"
    let ?ib = "algov_iowait_boost sp (snd (algov_cpu_is_busy e (st0 j))) (fst ?cmp) (snd ?cmp)"
    let ?st1 = "st(j := fst ?ib)"
    let ?su1 = "if j = p then util (st0 j) else su"
    let ?b1 = "(b \<or> tick_nohz_get_idle_calls e = saved_idle_calls (st0 j))"
    have step: "algov_next_freq_shared_loop e sp p time (j # js) (st, u, m, su, b)
        = algov_next_freq_shared_loop e sp p time js
            (?st1, fst (snd ?ib), snd (snd ?ib), ?su1, ?b1)"
      by (rule algov_next_freq_shared_loop_fresh [where st = st and j = j and c = "st0 j", OF stj False ndl])
    have eq1: "\<forall>k \<in> set js. ?st1 k = st0 k" using Cons.prems(2) jn by auto
    have dl1: "\<forall>j \<in> set (fresh_members e time st0 js).
                 flags (st0 j) AND SCHED_CPUFREQ_DL e = 0"
      using Cons.prems(3) fm by simp
    note IH = Cons.IH [OF dj eq1 dl1, of "fst (snd ?ib)" "snd (snd ?ib)" ?su1 ?b1]
    then obtain st' u' m' where
      r: "algov_next_freq_shared_loop e sp p time js
            (?st1, fst (snd ?ib), snd (snd ?ib), ?su1, ?b1)
          = Inr (st', u', m',
                 (if p \<in> set (fresh_members e time st0 js) then util (st0 p) else ?su1),
                 (?b1 \<or> list_ex (\<lambda>j. tick_nohz_get_idle_calls e = saved_idle_calls (st0 j))
                            (fresh_members e time st0 js)))"
      and sc: "list_all (\<lambda>j. iowait_boost (st0 j) = 0) (fresh_members e time st0 js) \<longrightarrow>
                (u', m') = max_ratio_scan
                             (map (\<lambda>j. (util (st0 j), max_cap (st0 j)))
                                (fresh_members e time st0 js)) (fst (snd ?ib), snd (snd ?ib))"
      by blast
    have pj: "p \<in> set (fresh_members e time st0 js) \<Longrightarrow> p \<noteq> j"
      using jn by (auto simp: fresh_members_def)
    have su_eq: "(if p \<in> set (fresh_members e time st0 js) then util (st0 p) else ?su1)
        = (if p \<in> set (fresh_members e time st0 (j # js)) then util (st0 p) else su)"
      using pj by (auto simp: fm)
    have b_eq: "(?b1 \<or> list_ex (\<lambda>j. tick_nohz_get_idle_calls e = saved_idle_calls (st0 j))
                            (fresh_members e time st0 js))
        = (b \<or> list_ex (\<lambda>j. tick_nohz_get_idle_calls e = saved_idle_calls (st0 j))
                            (fresh_members e time st0 (j # js)))"
      by (auto simp: fm)
    have scan: "(u', m') = max_ratio_scan
                             (map (\<lambda>j. (util (st0 j), max_cap (st0 j)))
                                (fresh_members e time st0 (j # js))) (u, m)"
      if nb: "list_all (\<lambda>j. iowait_boost (st0 j) = 0) (fresh_members e time st0 (j # js))"
    proof -
      have "iowait_boost (snd (algov_cpu_is_busy e (st0 j))) = 0"
        using nb by (simp add: fm algov_cpu_is_busy_def Let_def)
      then have "?ib = (snd (algov_cpu_is_busy e (st0 j)), fst ?cmp, snd ?cmp)"
        by (rule algov_iowait_boost_none)
      then have "(fst (snd ?ib), snd (snd ?ib)) = ?cmp" by simp
      with sc nb show ?thesis by (simp add: fm)
    qed
    show ?thesis
      unfolding step r su_eq b_eq using scan by blast
  qed
qed

lemma algov_next_freq_shared_loop_append:
  "algov_next_freq_shared_loop e sp p time (js1 @ js2) s
     = (case algov_next_freq_shared_loop e sp p time js1 s of
          Inl st' \<Rightarrow> Inl st'
        | Inr s' \<Rightarrow> algov_next_freq_shared_loop e sp p time js2 s')"
proof (induction js1 arbitrary: s)
  case Nil
  show ?case by simp
next
  case (Cons j js1)
  obtain st u m su b where s: "s = (st, u, m, su, b)" by (cases s)
  show ?case
    unfolding s by (simp add: Cons.IH Let_def split_def)
qed

text \<open>
  C6, amended: in every aggregation over distinct members of which none that is not
  stale carries the deadline flag, the loop runs to its end; the busy flag is the
  disjunction of the busy states of the members that are not stale (the idle-entry
  counter read equals the member's saved one), and \<open>sg_cpu_util\<close> is the utilization
  of the triggering processor.  The members are scanned in order (the loop over
  \<open>js1 @ js2\<close> is the loop over \<open>js2\<close> continued from the loop over \<open>js1\<close>) with a
  running pair that starts at (0, 1): a member that is not stale replaces the pair when
  \<open>j_util * max > j_max * util\<close>, so an earlier pair stays on a tie, and then that
  member's own io-wait boost is applied to the running pair, whether the member was
  selected or not.  When no member that is not stale has an io-wait boost, and the
  pairs are such that the products cannot overflow, the resulting pair has the greatest
  ratio of all members and is the pair of the first-scanned member with that ratio, or
  is (0, 1) when every member's utilization is zero.
\<close>

theorem algov_next_freq_shared_loop_aggregate:
  assumes "distinct js"
    and "\<forall>j \<in> set (fresh_members e time st js). flags (st j) AND SCHED_CPUFREQ_DL e = 0"
  shows "(\<exists>st' u m.
            algov_next_freq_shared_loop e sp p time js (st, 0, 1, 0, False)
              = Inr (st', u, m,
                     (if p \<in> set (fresh_members e time st js) then util (st p) else 0),
                     list_ex (\<lambda>j. tick_nohz_get_idle_calls e = saved_idle_calls (st j))
                       (fresh_members e time st js))
            \<and> (list_all (\<lambda>j. iowait_boost (st j) = 0
                               \<and> ratio_bounded (util (st j), max_cap (st j)))
                  (fresh_members e time st js) \<longrightarrow>
                list_all (\<lambda>j. ratio_le (util (st j), max_cap (st j)) (u, m))
                  (fresh_members e time st js)
                \<and> ((u, m) = (0, 1)
                       \<and> list_all (\<lambda>j. util (st j) = 0) (fresh_members e time st js)
                     \<or> (\<exists>i < length (fresh_members e time st js).
                           u = util (st (fresh_members e time st js ! i))
                           \<and> m = max_cap (st (fresh_members e time st js ! i))
                           \<and> (\<forall>k < i. ratio_less
                                        (util (st (fresh_members e time st js ! k)),
                                         max_cap (st (fresh_members e time st js ! k)))
                                        (u, m))))))
       \<and> (\<not> member_stale e time (stx j) \<and> flags (stx j) AND SCHED_CPUFREQ_DL e = 0 \<longrightarrow>
            algov_next_freq_shared_loop e sp p time [j] (stx, u0, m0, su0, b0)
              = (let c1 = (stx j)\<lparr>saved_idle_calls := tick_nohz_get_idle_calls e\<rparr>;
                     (u1, m1) = (if max_cap (stx j) * u0 < util (stx j) * m0
                                 then (util (stx j), max_cap (stx j)) else (u0, m0));
                     (c2, u2, m2) = algov_iowait_boost sp c1 u1 m1
                 in Inr (stx(j := c2), u2, m2, (if j = p then util (stx j) else su0),
                         (b0 \<or> tick_nohz_get_idle_calls e = saved_idle_calls (stx j)))))
       \<and> algov_next_freq_shared_loop e sp p time (js1 @ js2) s
            = (case algov_next_freq_shared_loop e sp p time js1 s of
                 Inl st' \<Rightarrow> Inl st'
               | Inr s' \<Rightarrow> algov_next_freq_shared_loop e sp p time js2 s')"
proof (intro conjI impI)
  let ?ms = "fresh_members e time st js"
  let ?pair = "\<lambda>j. (util (st j), max_cap (st j))"
  have eq0: "\<forall>k \<in> set js. st k = st k" by simp
  from algov_next_freq_shared_loop_result [OF assms(1) eq0 assms(2), of sp p 0 1 0 False]
  obtain st' u m where
    r: "algov_next_freq_shared_loop e sp p time js (st, 0, 1, 0, False)
          = Inr (st', u, m, (if p \<in> set ?ms then util (st p) else 0),
                 list_ex (\<lambda>j. tick_nohz_get_idle_calls e = saved_idle_calls (st j)) ?ms)"
    and sc: "list_all (\<lambda>j. iowait_boost (st j) = 0) ?ms \<longrightarrow>
               (u, m) = max_ratio_scan (map ?pair ?ms) (0, 1)"
    by auto
  have sel: "list_all (\<lambda>j. ratio_le (?pair j) (u, m)) ?ms
        \<and> ((u, m) = (0, 1) \<and> list_all (\<lambda>j. util (st j) = 0) ?ms
             \<or> (\<exists>i < length ?ms. u = util (st (?ms ! i)) \<and> m = max_cap (st (?ms ! i))
                   \<and> (\<forall>k < i. ratio_less (?pair (?ms ! k)) (u, m))))"
    if nb: "list_all (\<lambda>j. iowait_boost (st j) = 0 \<and> ratio_bounded (?pair j)) ?ms"
  proof -
    have nb0: "list_all (\<lambda>j. iowait_boost (st j) = 0) ?ms"
      and bd: "\<forall>q \<in> set (map ?pair ?ms). ratio_bounded q"
      using nb by (auto simp: list_all_iff)
    have R: "(u, m) = max_ratio_scan (map ?pair ?ms) (0, 1)"
      using sc nb0 by blast
    have b0: "ratio_bounded (0, 1)" by (simp add: ratio_bounded_def)
    note P = max_ratio_scan_props [OF bd b0, folded R]
    have le: "\<forall>q \<in> set (map ?pair ?ms). ratio_le q (u, m)"
      using P by blast
    then have G1: "list_all (\<lambda>j. ratio_le (?pair j) (u, m)) ?ms"
      by (simp add: list_all_iff)
    have alt: "(u, m) = (0, 1)
        \<or> (\<exists>i < length (map ?pair ?ms). (u, m) = map ?pair ?ms ! i
              \<and> (\<forall>k < i. ratio_less (map ?pair ?ms ! k) (map ?pair ?ms ! i))
              \<and> ratio_less (0, 1) (map ?pair ?ms ! i))"
      using P by blast
    then have G2: "(u, m) = (0, 1) \<and> list_all (\<lambda>j. util (st j) = 0) ?ms
             \<or> (\<exists>i < length ?ms. u = util (st (?ms ! i)) \<and> m = max_cap (st (?ms ! i))
                   \<and> (\<forall>k < i. ratio_less (?pair (?ms ! k)) (u, m)))"
    proof
      assume z: "(u, m) = (0, 1)"
      have "util (st j) = 0" if "j \<in> set ?ms" for j
      proof -
        have "ratio_le (?pair j) (0, 1)" using le that z by simp
        then have "unat (util (st j)) = 0" by (simp add: ratio_le_def)
        then show ?thesis by (simp add: unat_eq_0)
      qed
      then have "list_all (\<lambda>j. util (st j) = 0) ?ms" by (simp add: list_all_iff)
      with z show ?thesis by blast
    next
      assume "\<exists>i < length (map ?pair ?ms). (u, m) = map ?pair ?ms ! i
              \<and> (\<forall>k < i. ratio_less (map ?pair ?ms ! k) (map ?pair ?ms ! i))
              \<and> ratio_less (0, 1) (map ?pair ?ms ! i)"
      then obtain i where i: "i < length ?ms" "(u, m) = map ?pair ?ms ! i"
        "\<forall>k < i. ratio_less (map ?pair ?ms ! k) (map ?pair ?ms ! i)"
        by auto
      have um: "u = util (st (?ms ! i)) \<and> m = max_cap (st (?ms ! i))"
        using i(1,2) by simp
      have "ratio_less (?pair (?ms ! k)) (u, m)" if "k < i" for k
      proof -
        have "k < length ?ms" using that i(1) by simp
        then have b: "map ?pair ?ms ! k = ?pair (?ms ! k)" by simp
        have "ratio_less (map ?pair ?ms ! k) (map ?pair ?ms ! i)"
          using i(3) that by blast
        then show ?thesis unfolding b i(2) [symmetric] .
      qed
      with i(1) um show ?thesis by blast
    qed
    from G1 G2 show ?thesis by blast
  qed
  show "\<exists>st' u m.
            algov_next_freq_shared_loop e sp p time js (st, 0, 1, 0, False)
              = Inr (st', u, m, (if p \<in> set ?ms then util (st p) else 0),
                     list_ex (\<lambda>j. tick_nohz_get_idle_calls e = saved_idle_calls (st j)) ?ms)
            \<and> (list_all (\<lambda>j. iowait_boost (st j) = 0 \<and> ratio_bounded (?pair j)) ?ms \<longrightarrow>
                list_all (\<lambda>j. ratio_le (?pair j) (u, m)) ?ms
                \<and> ((u, m) = (0, 1) \<and> list_all (\<lambda>j. util (st j) = 0) ?ms
                     \<or> (\<exists>i < length ?ms.
                           u = util (st (?ms ! i)) \<and> m = max_cap (st (?ms ! i))
                           \<and> (\<forall>k < i. ratio_less (?pair (?ms ! k)) (u, m)))))"
    using r sel by blast
next
  assume "\<not> member_stale e time (stx j) \<and> flags (stx j) AND SCHED_CPUFREQ_DL e = 0"
  then show "algov_next_freq_shared_loop e sp p time [j] (stx, u0, m0, su0, b0)
              = (let c1 = (stx j)\<lparr>saved_idle_calls := tick_nohz_get_idle_calls e\<rparr>;
                     (u1, m1) = (if max_cap (stx j) * u0 < util (stx j) * m0
                                 then (util (stx j), max_cap (stx j)) else (u0, m0));
                     (c2, u2, m2) = algov_iowait_boost sp c1 u1 m1
                 in Inr (stx(j := c2), u2, m2, (if j = p then util (stx j) else su0),
                         (b0 \<or> tick_nohz_get_idle_calls e = saved_idle_calls (stx j))))"
    by (simp add: member_stale_def Let_def split_def algov_cpu_is_busy_def)
next
  show "algov_next_freq_shared_loop e sp p time (js1 @ js2) s
            = (case algov_next_freq_shared_loop e sp p time js1 s of
                 Inl st' \<Rightarrow> Inl st'
               | Inr s' \<Rightarrow> algov_next_freq_shared_loop e sp p time js2 s')"
    by (rule algov_next_freq_shared_loop_append)
qed

lemma ex_fresh_members:
  "fresh_members ex_env 30000000 ex_percpu_plain (cpus (policy ex_policy)) = [0, 1]"
  by (simp add: fresh_members_def member_stale_def ex_percpu_plain_def ex_percpu_def
      ex_env_def ex_policy_def)

lemma ex_loop_plain:
  "algov_next_freq_shared_loop ex_env ex_policy 0 30000000 (cpus (policy ex_policy))
     (ex_percpu_plain, 0, 1, 0, False)
    = Inr (ex_percpu_plain(1 := (ex_percpu_plain 1)\<lparr>saved_idle_calls := 7\<rparr>),
           100, 1024, 100, True)"
  by (auto simp: ex_percpu_plain_def ex_percpu_def ex_env_def ex_policy_def
      algov_cpu_is_busy_def algov_iowait_boost_def Let_def fun_eq_iff)

text \<open>The amended C6 on the two processors at 30 ms: with no boosts the loop ends with
  (100, 1024), the pair of processor 0, which is at least the ratio of both, with
  \<open>sg_cpu_util = 100\<close> and busy; and one step of the loop for processor 1 with its
  pending boost, from the running pair (100, 1024), yields (1000, 2000).\<close>

theorem algov_next_freq_shared_loop_aggregate_witness:
  "distinct (cpus (policy ex_policy))
   \<and> fresh_members ex_env 30000000 ex_percpu_plain (cpus (policy ex_policy)) = [0, 1]
   \<and> list_all (\<lambda>j. flags (ex_percpu_plain j) AND SCHED_CPUFREQ_DL ex_env = 0) [0, 1]
   \<and> list_all (\<lambda>j. iowait_boost (ex_percpu_plain j) = 0
                    \<and> ratio_bounded (util (ex_percpu_plain j), max_cap (ex_percpu_plain j)))
        [0, 1]
   \<and> algov_next_freq_shared_loop ex_env ex_policy 0 30000000 (cpus (policy ex_policy))
        (ex_percpu_plain, 0, 1, 0, False)
       = Inr (ex_percpu_plain(1 := (ex_percpu_plain 1)\<lparr>saved_idle_calls := 7\<rparr>),
              100, 1024, 100, True)
   \<and> list_all (\<lambda>j. ratio_le (util (ex_percpu_plain j), max_cap (ex_percpu_plain j))
                    (100, 1024)) [0, 1]
   \<and> \<not> member_stale ex_env 30000000 (ex_percpu 1)
   \<and> flags (ex_percpu 1) AND SCHED_CPUFREQ_DL ex_env = 0
   \<and> algov_next_freq_shared_loop ex_env ex_policy 0 30000000 [1]
        (ex_percpu, 100, 1024, 100, True)
       = Inr (ex_percpu(1 := (ex_percpu 1)\<lparr>saved_idle_calls := 7,
                                           iowait_boost_pending := False\<rparr>),
              1000, 2000, 100, True)"
proof -
  let ?js = "cpus (policy ex_policy)"
  have d: "distinct ?js" by (simp add: ex_policy_def)
  have fl: "list_all (\<lambda>j. flags (ex_percpu_plain j) AND SCHED_CPUFREQ_DL ex_env = 0) [0, 1]"
    by (simp add: ex_percpu_plain_def ex_percpu_def)
  have dl: "\<forall>j \<in> set (fresh_members ex_env 30000000 ex_percpu_plain ?js).
              flags (ex_percpu_plain j) AND SCHED_CPUFREQ_DL ex_env = 0"
    using fl by (simp only: ex_fresh_members list_all_iff)
  have nb: "list_all (\<lambda>j. iowait_boost (ex_percpu_plain j) = 0
                    \<and> ratio_bounded (util (ex_percpu_plain j), max_cap (ex_percpu_plain j)))
        [0, 1]"
    by (simp add: ex_percpu_plain_def ex_percpu_def ratio_bounded_def)
  have fr: "\<not> member_stale ex_env 30000000 (ex_percpu 1)
      \<and> flags (ex_percpu 1) AND SCHED_CPUFREQ_DL ex_env = 0"
    by (simp add: member_stale_def ex_percpu_def ex_env_def)
  note T = algov_next_freq_shared_loop_aggregate
             [OF d dl, where sp = ex_policy and p = 0 and stx = ex_percpu and j = 1
                 and ?u0.0 = 100 and ?m0.0 = 1024 and ?su0.0 = 100 and ?b0.0 = True]
  from T obtain st' u m where
    r: "algov_next_freq_shared_loop ex_env ex_policy 0 30000000 ?js
          (ex_percpu_plain, 0, 1, 0, False)
        = Inr (st', u, m,
               (if 0 \<in> set (fresh_members ex_env 30000000 ex_percpu_plain ?js)
                then util (ex_percpu_plain 0) else 0),
               list_ex (\<lambda>j. tick_nohz_get_idle_calls ex_env
                              = saved_idle_calls (ex_percpu_plain j))
                 (fresh_members ex_env 30000000 ex_percpu_plain ?js))"
    and imp: "list_all (\<lambda>j. iowait_boost (ex_percpu_plain j) = 0
                    \<and> ratio_bounded (util (ex_percpu_plain j), max_cap (ex_percpu_plain j)))
                (fresh_members ex_env 30000000 ex_percpu_plain ?js) \<longrightarrow>
              list_all (\<lambda>j. ratio_le (util (ex_percpu_plain j), max_cap (ex_percpu_plain j))
                              (u, m))
                (fresh_members ex_env 30000000 ex_percpu_plain ?js)"
    by blast
  from r have um: "u = 100" "m = 1024"
    by (simp_all only: ex_loop_plain sum.inject prod.inject)
  from imp nb have le: "list_all (\<lambda>j. ratio_le (util (ex_percpu_plain j),
                                      max_cap (ex_percpu_plain j)) (100, 1024)) [0, 1]"
    by (simp only: ex_fresh_members um)
  from T fr have step: "algov_next_freq_shared_loop ex_env ex_policy 0 30000000 [1]
        (ex_percpu, 100, 1024, 100, True)
       = (let c1 = (ex_percpu 1)\<lparr>saved_idle_calls := tick_nohz_get_idle_calls ex_env\<rparr>;
              (u1, m1) = (if max_cap (ex_percpu 1) * 100 < util (ex_percpu 1) * 1024
                          then (util (ex_percpu 1), max_cap (ex_percpu 1)) else (100, 1024));
              (c2, u2, m2) = algov_iowait_boost ex_policy c1 u1 m1
          in Inr (ex_percpu(1 := c2), u2, m2, (if (1::nat) = 0 then util (ex_percpu 1) else 100),
                  (True \<or> tick_nohz_get_idle_calls ex_env = saved_idle_calls (ex_percpu 1))))"
    by blast
  have step': "algov_next_freq_shared_loop ex_env ex_policy 0 30000000 [1]
        (ex_percpu, 100, 1024, 100, True)
       = Inr (ex_percpu(1 := (ex_percpu 1)\<lparr>saved_idle_calls := 7,
                                           iowait_boost_pending := False\<rparr>),
              1000, 2000, 100, True)"
    unfolding step
    by (simp add: ex_percpu_def ex_env_def ex_policy_def algov_iowait_boost_def Let_def)
  from d ex_fresh_members fl nb ex_loop_plain le fr step' show ?thesis
    by (intro conjI) (simp_all only: simp_thms)
qed

end
